theory Spec2Isabelle
  imports Main
begin

section \<open>The design data model\<close>

text \<open>
  The kinds of package \<open>design\<close>. A \<open>Primitive\<close> is a kind used as a data type; the
  composite kinds are the tags of the other data types.
\<close>

datatype Kind =
    BooleanKind | IntKind | Int32Kind | Int64Kind | UIntKind | UInt32Kind | UInt64Kind
  | Float32Kind | Float64Kind | StringKind | BytesKind | ArrayKind | ObjectKind | MapKind
  | UserTypeKind | ResultTypeKind | AnyKind

text \<open>
  \<open>ValidationExpr\<close>: the names of the required attributes and the other rules, which
  this development never inspects.
\<close>

record ValidationExpr =
  v_Required :: "string list"
  v_Rules :: "string list"

text \<open>
  Data types and attribute expressions are mutually recursive in the source: an array
  holds the attribute of its elements, a map those of its keys and elements, an object a
  list of named attributes. A user type is a pointer in the source, so that type graphs
  may be cyclic; here it is its identity, and the type graph is a registry (the store)
  from identities to attributes. \<open>Empty\<close> is the sentinel \<open>design.Empty\<close>, which the
  source compares by identity before any type switch.
\<close>

datatype DataType =
    Empty
  | Primitive Kind
  | Array AttributeExpr
  | Map AttributeExpr AttributeExpr
  | Object "(string \<times> AttributeExpr) list"
  | UserType string
and AttributeExpr =
    AttributeExpr (Type: DataType) (Description: string)
      (Validation: "ValidationExpr option") (DefaultValue: "string option")
      (Metadata: "string \<rightharpoonup> string list")

lemma size_Type [simp]: "size (Type a) < size a"
  by (cases a) simp

lemma size_Type_add [simp]:
  "size (Type a) < Suc (size a)"
  "size (Type a) < Suc (size a + n)" "size (Type a) < Suc (n + size a)"
  by (cases a, simp)+

section \<open>needConversion and needInit\<close>

text \<open>
  \<open>needConversion\<close> (service_data.go): whether the type needs to be converted from a
  string.
\<close>

function needConversion :: "DataType \<Rightarrow> bool" where
  "needConversion Empty = False"
| "needConversion (Primitive k) =
     (if k = StringKind \<or> k = AnyKind \<or> k = BytesKind then False else True)"
| "needConversion (Array e) = needConversion (Type e)"
| "needConversion (Map k e) = (needConversion (Type k) \<or> needConversion (Type e))"
| "needConversion (Object nats) = True"
| "needConversion (UserType u) = True"
  by pat_completeness auto
termination
  by (relation "measure size") simp_all

text \<open>
  \<open>needInit\<close> (service_data.go): the loop over the fields of an object returns at
  the first field that needs initialisation. The \<open>default\<close> branch of the source's type
  switch panics on an unknown implementation of \<open>DataType\<close>; the datatype has none.
\<close>

function needInit :: "DataType \<Rightarrow> bool"
  and needInit_fields :: "(string \<times> AttributeExpr) list \<Rightarrow> bool" where
  "needInit Empty = False"
| "needInit (Primitive k) = False"
| "needInit (Array e) = needInit (Type e)"
| "needInit (Map k e) = (needInit (Type k) \<or> needInit (Type e))"
| "needInit (Object nats) = needInit_fields nats"
| "needInit (UserType u) = True"
| "needInit_fields [] = False"
| "needInit_fields (na # nats) =
     (if needInit (Type (snd na)) then True else needInit_fields nats)"
  by pat_completeness auto
termination
  by (relation "measure (\<lambda>x. case x of Inl dt \<Rightarrow> size dt
        | Inr nats \<Rightarrow> size_list (size_prod (\<lambda>_. 0) size) nats)")
     (auto intro: less_trans [OF size_Type])

section \<open>collectUserTypes\<close>

text \<open>
  The type graph: user type identities (\<open>ID()\<close>) and the attribute each one
  designates (\<open>Attribute()\<close>). A user type may occur in its own attribute, directly or
  through other user types. An identity without an entry designates a user type whose
  attribute has no structure to traverse.
\<close>

type_synonym Registry = "(string \<times> AttributeExpr) list"

text \<open>
  The number of registered identities not yet recorded in the seen set: the quantity
  that decreases each time the traversal enters a user type.
\<close>

definition unseen :: "Registry \<Rightarrow> string set option \<Rightarrow> nat" where
  "unseen reg seen = card (fst ` set reg - (case seen of None \<Rightarrow> {} | Some s \<Rightarrow> s))"

text \<open>The seen set only grows, and stays absent when none was passed.\<close>

fun grows :: "string set option \<Rightarrow> string set option \<Rightarrow> bool" where
  "grows None r = (r = None)"
| "grows (Some s) r = (case r of None \<Rightarrow> False | Some s' \<Rightarrow> s \<subseteq> s')"

lemma grows_refl [simp]: "grows seen seen"
  by (cases seen) auto

lemma grows_trans: "grows a b \<Longrightarrow> grows b c \<Longrightarrow> grows a c"
  by (cases a; cases b; cases c) auto

lemma grows_unseen: "grows a b \<Longrightarrow> unseen reg b \<le> unseen reg a"
  by (cases a; cases b) (auto simp: unseen_def intro!: card_mono)

text \<open>
  \<open>collectUserTypes\<close> (service_data.go) traverses the data type and calls back
  \<open>cb\<close> for each user type. The variadic \<open>seen\<close> holds no map or one map: with
  no map, a fresh one is made at each call and dropped at its return; with one, the map
  is shared by reference with every nested call and each sibling, so the model returns
  it updated. Objects, arrays and maps pass \<open>seen...\<close> on, a user type passes its
  own \<open>s\<close>. The result is the list of identities \<open>cb\<close> was called with, in call
  order, and the final contents of the map passed in.
\<close>

function collectUserTypes ::
    "Registry \<Rightarrow> DataType \<Rightarrow> string set option \<Rightarrow> string list \<times> string set option"
  and collectUserTypes_fields ::
    "Registry \<Rightarrow> (string \<times> AttributeExpr) list \<Rightarrow> string set option
      \<Rightarrow> string list \<times> string set option" where
  "collectUserTypes reg Empty seen = ([], seen)"
| "collectUserTypes reg (Primitive k) seen = ([], seen)"
| "collectUserTypes reg (Object nats) seen = collectUserTypes_fields reg nats seen"
| "collectUserTypes reg (Array e) seen = collectUserTypes reg (Type e) seen"
| "collectUserTypes reg (Map k e) seen =
     (case collectUserTypes reg (Type k) seen of (cbs1, seen1) \<Rightarrow>
      case collectUserTypes reg (Type e) seen1 of (cbs2, seen2) \<Rightarrow>
        (cbs1 @ cbs2, seen2))"
| "collectUserTypes reg (UserType u) seen =
     (let s = (case seen of Some m \<Rightarrow> m | None \<Rightarrow> {}) in
      if u \<in> s then ([], seen)
      else
        let s1 = insert u s in
        case map_of reg u of
          None \<Rightarrow> ([u], map_option (\<lambda>_. s1) seen)
        | Some a \<Rightarrow>
            (case collectUserTypes reg (Type a) (Some s1) of (cbs, seen2) \<Rightarrow>
               (u # cbs, case seen of None \<Rightarrow> None | Some _ \<Rightarrow> seen2)))"
| "collectUserTypes_fields reg [] seen = ([], seen)"
| "collectUserTypes_fields reg (na # nats) seen =
     (case collectUserTypes reg (Type (snd na)) seen of (cbs1, seen1) \<Rightarrow>
      case collectUserTypes_fields reg nats seen1 of (cbs2, seen2) \<Rightarrow>
        (cbs1 @ cbs2, seen2))"
  by pat_completeness auto


lemma collect_grows:
  "collectUserTypes_collectUserTypes_fields_dom (Inl (reg, dt, seen)) \<Longrightarrow>
     grows seen (snd (collectUserTypes reg dt seen))"
  "collectUserTypes_collectUserTypes_fields_dom (Inr (reg, nats, seen)) \<Longrightarrow>
     grows seen (snd (collectUserTypes_fields reg nats seen))"
proof (induction reg dt seen and reg nats seen rule: collectUserTypes_collectUserTypes_fields.pinduct)
  case (5 reg k e seen)
  obtain c1 s1 where r1: "collectUserTypes reg (Type k) seen = (c1, s1)" by fastforce
  obtain c2 s2 where r2: "collectUserTypes reg (Type e) s1 = (c2, s2)" by fastforce
  have "grows seen s1" using 5(2) r1 by simp
  moreover have "grows s1 s2" using 5(3) [of c1 s1] r1 r2 by simp
  ultimately show ?case using 5(1) r1 r2
    by (auto simp: collectUserTypes.psimps intro: grows_trans)
next
  case (6 reg u seen)
  let ?s = "case seen of None \<Rightarrow> {} | Some m \<Rightarrow> m"
  show ?case
  proof (cases "u \<in> ?s")
    case True
    then show ?thesis using 6(1) by (simp add: collectUserTypes.psimps)
  next
    case False
    show ?thesis
    proof (cases "map_of reg u")
      case None
      then show ?thesis using 6(1) False
        by (cases seen) (auto simp: collectUserTypes.psimps)
    next
      case (Some a)
      obtain c s2 where r: "collectUserTypes reg (Type a) (Some (insert u ?s)) = (c, s2)"
        by fastforce
      have "grows (Some (insert u ?s)) s2" using 6(2) [OF refl False refl Some] r by simp
      then show ?thesis using 6(1) False Some r
        by (cases seen) (auto simp: collectUserTypes.psimps split: option.splits)
    qed
  qed
next
  case (8 reg na nats seen)
  obtain c1 s1 where r1: "collectUserTypes reg (Type (snd na)) seen = (c1, s1)" by fastforce
  obtain c2 s2 where r2: "collectUserTypes_fields reg nats s1 = (c2, s2)" by fastforce
  have "grows seen s1" using 8(2) r1 by simp
  moreover have "grows s1 s2" using 8(3) [of c1 s1] r1 r2 by simp
  ultimately show ?case using 8(1) r1 r2
    by (auto simp: collectUserTypes_fields.psimps intro: grows_trans)
qed (auto simp: collectUserTypes.psimps collectUserTypes_fields.psimps)

lemma unseen_insert:
  assumes "map_of reg u = Some a" and "u \<notin> s"
  shows "unseen reg (Some (insert u s)) < unseen reg (Some s)"
proof -
  have mem: "u \<in> fst ` set reg" using assms(1) by (metis map_of_eq_None_iff option.distinct(1))
  have "fst ` set reg - insert u s \<subset> fst ` set reg - s" using mem assms(2) by auto
  then show ?thesis unfolding unseen_def by (auto intro!: psubset_card_mono)
qed

lemma unseen_first:
  assumes "map_of reg u = Some a"
  shows "unseen reg (Some {u}) < unseen reg None"
proof -
  have mem: "u \<in> fst ` set reg" using assms(1) by (metis map_of_eq_None_iff option.distinct(1))
  have "fst ` set reg - {u} \<subset> fst ` set reg - {}" using mem by auto
  then show ?thesis unfolding unseen_def by (simp only: option.case) (rule psubset_card_mono, auto)
qed

termination collectUserTypes
proof (relation "measures [\<lambda>x. case x of Inl (reg, dt, seen) \<Rightarrow> unseen reg seen | Inr (reg, nats, seen) \<Rightarrow> unseen reg seen,
     \<lambda>x. case x of Inl (reg, dt, seen) \<Rightarrow> size dt | Inr (reg, nats, seen) \<Rightarrow> size_list (size_prod (\<lambda>_. 0) size) nats]", goal_cases)
  case 1 show ?case by simp
next
  case 2 show ?case by simp
next
  case 3 show ?case by simp
next
  case 4 show ?case by simp
next
  case (5 reg k e seen x y)
  have "unseen reg y \<le> unseen reg seen"
    using grows_unseen [OF collect_grows(1) [OF 5(2)], of reg] 5(1) by (metis snd_conv)
  then have "unseen reg y < unseen reg seen \<or> unseen reg y = unseen reg seen" by auto
  then show ?case by auto
next
  case (6 reg u seen x xa x2)
  then show ?case by (cases seen) (auto simp: unseen_insert unseen_first)
next
  case (7 reg na nats seen)
  show ?case by (cases na) (auto intro: less_trans [OF size_Type])
next
  case (8 reg na nats seen x y)
  have "unseen reg y \<le> unseen reg seen"
    using grows_unseen [OF collect_grows(1) [OF 8(2)], of reg] 8(1) by (metis snd_conv)
  then have "unseen reg y < unseen reg seen \<or> unseen reg y = unseen reg seen" by auto
  then show ?case by auto
qed


text \<open>
  The type closure of a data type, in the words of the specification: the type itself
  and every type reachable through array elements, map keys and elements and object
  fields. A user type is a node of the closure.
\<close>

function nodes :: "DataType \<Rightarrow> DataType set"
  and nodes_fields :: "(string \<times> AttributeExpr) list \<Rightarrow> DataType set" where
  "nodes Empty = {Empty}"
| "nodes (Primitive k) = {Primitive k}"
| "nodes (Array e) = insert (Array e) (nodes (Type e))"
| "nodes (Map k e) = insert (Map k e) (nodes (Type k) \<union> nodes (Type e))"
| "nodes (Object nats) = insert (Object nats) (nodes_fields nats)"
| "nodes (UserType u) = {UserType u}"
| "nodes_fields [] = {}"
| "nodes_fields (na # nats) = nodes (Type (snd na)) \<union> nodes_fields nats"
  by pat_completeness auto
termination
  by (relation "measure (\<lambda>x. case x of Inl dt \<Rightarrow> size dt
        | Inr nats \<Rightarrow> size_list (size_prod (\<lambda>_. 0) size) nats)")
     (auto intro: less_trans [OF size_Type])

section \<open>Errors, external functions and the generator's data\<close>

text \<open>
  A Go panic: the dereference of a nil pointer (a lookup that found nothing, then used),
  an index out of range, or the panic of \<open>analyze\<close> on the error of a template
  execution.
\<close>

datatype error = NilDereference | IndexOutOfRange | TemplateError

record MappedAttributeExpr =
  ma_Attribute :: AttributeExpr
  ma_nameMap :: "string \<rightharpoonup> string"

text \<open>
  The part of \<open>service.Data\<close> and \<open>service.MethodData\<close> that service_data.go
  reads. The scope of the service is mutable and lives in the generator state below.
\<close>

record SchemeData =
  sc_Type :: string
  sc_UsernameAttr :: string
  sc_UsernameField :: string
  sc_UsernameRequired :: bool
  sc_UsernamePointer :: bool
  sc_PasswordAttr :: string
  sc_PasswordField :: string
  sc_PasswordRequired :: bool
  sc_PasswordPointer :: bool

record MethodData =
  md_Name :: string
  md_VarName :: string
  md_Payload :: string
  md_Result :: string
  md_Requirements :: "SchemeData list list"
  md_ViewedResult :: "DataType option"

record ServiceInfo =
  sv_Name :: string
  sv_PkgName :: string
  sv_ViewsPkg :: string
  sv_StructName :: string
  sv_Methods :: "MethodData list"

text \<open>
  The functions of other packages that service_data.go calls and that are not part of
  the sources at hand (\<open>codegen\<close>, \<open>design\<close>, \<open>service\<close>, \<open>net/http\<close>, \<open>fmt\<close>) are
  parameters of the model, collected in one record. \<open>'s\<close> is the name scope
  (\<open>codegen.NameScope\<close>), which \<open>Unique\<close> and \<open>HashedUnique\<close> update; \<open>'h\<close> is
  \<open>codegen.TransformFunctionData\<close>. \<open>TransformError\<close> and \<open>TransformPlan\<close> are
  the two parts of \<open>GoTypeTransform\<close>, defined below.
  \<open>WalkMappedAttr\<close> gives the arguments of the successive calls of the walker;
  every walker in service_data.go returns \<open>nil\<close>, so no walk stops early.
  \<open>AsArray\<close> gives the element attribute of the array found, \<open>AsMap\<close> the key and
  element attributes, \<open>AsObject\<close> the named attributes. \<open>Attribute\<close> is the
  lookup \<open>(*Object).Attribute(name)\<close> in the named attributes of an object and
  \<open>Method\<close> is \<open>(*service.Data).Method(name)\<close>; both return a pointer,
  \<open>None\<close> for \<open>nil\<close>.
\<close>

record ('s, 'h) Ext =
  Goify :: "string \<Rightarrow> bool \<Rightarrow> string"
  Unique :: "'s \<Rightarrow> string \<Rightarrow> string \<times> 's"
  HashedUnique :: "'s \<Rightarrow> DataType \<Rightarrow> string \<Rightarrow> string \<times> 's"
  GoTypeName :: "'s \<Rightarrow> AttributeExpr \<Rightarrow> string"
  GoTypeRef :: "'s \<Rightarrow> AttributeExpr \<Rightarrow> string"
  GoFullTypeName :: "'s \<Rightarrow> AttributeExpr \<Rightarrow> string \<Rightarrow> string"
  GoFullTypeRef :: "'s \<Rightarrow> AttributeExpr \<Rightarrow> string \<Rightarrow> string"
  RecursiveValidationCode ::
    "AttributeExpr \<Rightarrow> bool \<Rightarrow> bool \<Rightarrow> bool \<Rightarrow> string \<Rightarrow> string"
  TransformError :: "DataType \<Rightarrow> DataType \<Rightarrow> string \<Rightarrow> string \<Rightarrow> string option"
  TransformPlan ::
    "DataType \<Rightarrow> DataType \<Rightarrow> string \<Rightarrow> string \<Rightarrow> string \<Rightarrow> string \<Rightarrow> bool \<Rightarrow> 's
      \<Rightarrow> string \<times> 'h list"
  AppendHelpers :: "'h list \<Rightarrow> 'h list \<Rightarrow> 'h list"
  WalkMappedAttr :: "MappedAttributeExpr \<Rightarrow> (string \<times> string \<times> bool \<times> AttributeExpr) list"
  ElemName :: "MappedAttributeExpr \<Rightarrow> string \<Rightarrow> string"
  AsObject :: "DataType \<Rightarrow> (string \<times> AttributeExpr) list option"
  Attribute :: "(string \<times> AttributeExpr) list \<Rightarrow> string \<Rightarrow> AttributeExpr option"
  AsArray :: "DataType \<Rightarrow> AttributeExpr option"
  AsMap :: "DataType \<Rightarrow> (AttributeExpr \<times> AttributeExpr) option"
  IsObject :: "DataType \<Rightarrow> bool"
  IsArray :: "DataType \<Rightarrow> bool"
  IsMap :: "DataType \<Rightarrow> bool"
  Kind :: "DataType \<Rightarrow> Kind"
  Name :: "DataType \<Rightarrow> string"
  UserTypeAttribute :: "string \<Rightarrow> AttributeExpr"
  IsRequired :: "AttributeExpr \<Rightarrow> string \<Rightarrow> bool"
  IsPrimitivePointer :: "AttributeExpr \<Rightarrow> string \<Rightarrow> bool \<Rightarrow> bool"
  Find :: "AttributeExpr \<Rightarrow> string \<Rightarrow> AttributeExpr option"
  Method :: "ServiceInfo \<Rightarrow> string \<Rightarrow> MethodData option"
  CanonicalHeaderKey :: "string \<Rightarrow> string"
  StatusText :: "int \<Rightarrow> string"
  statusCodeToHTTPConst :: "int \<Rightarrow> string"
  Sprintf :: "string \<Rightarrow> string list \<Rightarrow> string"

text \<open>
  A call \<open>obj.Attribute(name)\<close> on the result of \<open>AsObject\<close>: the receiver is
  \<open>nil\<close> when the type is no object, and the method then dereferences it; otherwise
  the result is the pointer that \<open>Attribute\<close> returns.
\<close>

definition Object_Attribute ::
    "('s, 'h) Ext \<Rightarrow> (string \<times> AttributeExpr) list option \<Rightarrow> string
      \<Rightarrow> error + AttributeExpr option" where
  "Object_Attribute x obj name =
     (case obj of None \<Rightarrow> Inl NilDereference | Some nats \<Rightarrow> Inr (Attribute x nats name))"

text \<open>
  Modelled from the spec: \<open>GoTypeTransform\<close> (package codegen), the transform
  compiler, is not among the sources. The specification makes a transform fail on
  structurally incompatible source and target shapes and on a target field with no
  source field: whether it fails is decided by the two types (the message may name the
  two variables), not by the direction flag \<open>unmarshal\<close>, the packages or the scope.
  On failure no plan is returned; otherwise the plan is the code and its helper
  functions. The result is the triple that Go returns: the code, the helpers and the
  error, \<open>None\<close> for \<open>nil\<close>.
\<close>

definition GoTypeTransform ::
    "('s, 'h) Ext \<Rightarrow> DataType \<Rightarrow> DataType \<Rightarrow> string \<Rightarrow> string \<Rightarrow> string \<Rightarrow> string \<Rightarrow> bool
      \<Rightarrow> 's \<Rightarrow> string \<times> 'h list \<times> string option" where
  "GoTypeTransform x source target sourceVar targetVar sourcePkg targetPkg unmarshal scope =
     (case TransformError x source target sourceVar targetVar of
        Some err \<Rightarrow> ([], [], Some err)
      | None \<Rightarrow>
          (case TransformPlan x source target sourceVar targetVar sourcePkg targetPkg
                  unmarshal scope of
             (code, helpers) \<Rightarrow> (code, helpers, None)))"

text \<open>
  The data structures of service_data.go, with the fields in the order of the source.
  The \<open>Example\<close> fields (random example values) and \<open>ParamData.ServiceField\<close>
  (never assigned) are left out. A composite literal of the source leaves the fields it
  does not name at their zero values; the constants \<open>InitArgData0\<close>, \<open>InitData0\<close>
  and \<open>ParamData0\<close> are those.
\<close>

record InitArgData =
  a_Name :: string
  a_Description :: string
  a_Ref :: string
  a_FieldName :: string
  a_TypeName :: string
  a_TypeRef :: string
  a_Pointer :: bool
  a_Required :: bool
  a_DefaultValue :: "string option"
  a_Validate :: string

definition InitArgData0 :: InitArgData where
  "InitArgData0 = \<lparr>a_Name = [], a_Description = [], a_Ref = [], a_FieldName = [],
     a_TypeName = [], a_TypeRef = [], a_Pointer = False, a_Required = False,
     a_DefaultValue = None, a_Validate = []\<rparr>"

record InitData =
  i_Name :: string
  i_Description :: string
  i_ServerArgs :: "InitArgData list"
  i_ClientArgs :: "InitArgData list"
  i_CLIArgs :: "InitArgData list"
  i_ReturnTypeName :: string
  i_ReturnTypeRef :: string
  i_ReturnTypeAttribute :: string
  i_ReturnIsStruct :: bool
  i_ReturnIsPrimitivePointer :: bool
  i_ServerCode :: string
  i_ClientCode :: string

definition InitData0 :: InitData where
  "InitData0 = \<lparr>i_Name = [], i_Description = [], i_ServerArgs = [], i_ClientArgs = [],
     i_CLIArgs = [], i_ReturnTypeName = [], i_ReturnTypeRef = [], i_ReturnTypeAttribute = [],
     i_ReturnIsStruct = False, i_ReturnIsPrimitivePointer = False, i_ServerCode = [],
     i_ClientCode = []\<rparr>"

record ParamData =
  p_Name :: string
  p_AttributeName :: string
  p_Description :: string
  p_FieldName :: string
  p_VarName :: string
  p_Type :: DataType
  p_TypeName :: string
  p_TypeRef :: string
  p_Required :: bool
  p_Pointer :: bool
  p_StringSlice :: bool
  p_Slice :: bool
  p_MapStringSlice :: bool
  p_Map :: bool
  p_Validate :: string
  p_DefaultValue :: "string option"
  p_MapQueryParams :: "string option"

definition ParamData0 :: ParamData where
  "ParamData0 = \<lparr>p_Name = [], p_AttributeName = [], p_Description = [], p_FieldName = [],
     p_VarName = [], p_Type = Empty, p_TypeName = [], p_TypeRef = [], p_Required = False,
     p_Pointer = False, p_StringSlice = False, p_Slice = False, p_MapStringSlice = False,
     p_Map = False, p_Validate = [], p_DefaultValue = None, p_MapQueryParams = None\<rparr>"

record HeaderData =
  h_Name :: string
  h_AttributeName :: string
  h_Description :: string
  h_CanonicalName :: string
  h_FieldName :: string
  h_VarName :: string
  h_TypeName :: string
  h_TypeRef :: string
  h_Required :: bool
  h_Pointer :: bool
  h_StringSlice :: bool
  h_Slice :: bool
  h_Type :: DataType
  h_Validate :: string
  h_DefaultValue :: "string option"

text \<open>
  A field of a synthesized wire type: its name and whether it is represented as a
  pointer (possibly absent) or as a value (always present).
\<close>

record FieldDef =
  f_Name :: string
  f_Pointer :: bool

record TypeData =
  t_Name :: string
  t_VarName :: string
  t_Description :: string
  t_Init :: "InitData option"
  t_Def :: "FieldDef list"
  t_Ref :: string
  t_ValidateDef :: string
  t_ValidateRef :: string

record RequestData =
  r_PathParams :: "ParamData list"
  r_QueryParams :: "ParamData list"
  r_Headers :: "HeaderData list"
  r_ServerBody :: "TypeData option"
  r_ClientBody :: "TypeData option"
  r_PayloadInit :: "InitData option"
  r_MustValidate :: bool

record PayloadData =
  pd_Name :: string
  pd_Ref :: string
  pd_Request :: RequestData
  pd_DecoderReturnValue :: string

text \<open>
  The HTTP design expressions. \<open>e_PathParams\<close> and \<open>e_QueryParams\<close> are the results
  of the methods \<open>PathParams()\<close> and \<open>QueryParams()\<close>, \<open>e_Name\<close> that of \<open>Name()\<close>.
  \<open>Tag\<close> is a Go array of two strings.
\<close>

record HTTPResponseExpr =
  rx_StatusCode :: int
  rx_Description :: string
  rx_Body :: AttributeExpr
  rx_Headers :: MappedAttributeExpr
  rx_Tag :: "string \<times> string"

record MethodExpr =
  me_Name :: string
  me_Payload :: AttributeExpr
  me_Result :: AttributeExpr

record EndpointExpr =
  e_Name :: string
  e_MethodExpr :: MethodExpr
  e_Body :: AttributeExpr
  e_Params :: MappedAttributeExpr
  e_Headers :: MappedAttributeExpr
  e_MapQueryParams :: "string option"
  e_PathParams :: MappedAttributeExpr
  e_QueryParams :: MappedAttributeExpr
  e_Responses :: "HTTPResponseExpr list"

text \<open>
  The mutable part of \<open>ServiceData\<close> and of the process: the scope of the service,
  the transform helpers and type names recorded so far, and the lines printed to the
  standard output.
\<close>

record ('s, 'h) GenState =
  Scope :: 's
  ServerTypeNames :: "string set"
  ClientTypeNames :: "string set"
  ServerTransformHelpers :: "'h list"
  ClientTransformHelpers :: "'h list"
  Stdout :: "string list"

section \<open>Path parameters, query parameters and headers\<close>

text \<open>
  \<open>extractPathParams\<close> (service_data.go): one \<open>ParamData\<close> for each attribute the
  walk visits, appended in order; \<open>scope.Unique\<close> updates the scope at each visit.
\<close>

fun extractPathParams_walk ::
    "('s, 'h) Ext \<Rightarrow> AttributeExpr \<Rightarrow> (string \<times> string \<times> bool \<times> AttributeExpr) list \<Rightarrow> 's
      \<Rightarrow> ParamData list \<Rightarrow> ParamData list \<times> 's" where
  "extractPathParams_walk x serviceType [] scope params = (params, scope)"
| "extractPathParams_walk x serviceType ((name, elem, required, c) # visits) scope params =
     (let (varn, scope1) = Unique x scope (Goify x name False);
          arr = AsArray x (Type c);
          fieldName = Goify x name True;
          fieldName = (if \<not> IsObject x (Type serviceType) then [] else fieldName)
      in extractPathParams_walk x serviceType visits scope1
           (params @ [\<lparr>p_Name = elem, p_AttributeName = name, p_Description = Description c,
              p_FieldName = fieldName, p_VarName = varn, p_Type = Type c,
              p_TypeName = GoTypeName x scope1 c, p_TypeRef = GoTypeRef x scope1 c,
              p_Required = required, p_Pointer = False,
              p_StringSlice =
                (case arr of None \<Rightarrow> False | Some el \<Rightarrow> Kind x (Type el) = StringKind),
              p_Slice = (arr \<noteq> None), p_MapStringSlice = False, p_Map = False,
              p_Validate = RecursiveValidationCode x c True False False varn,
              p_DefaultValue = DefaultValue c, p_MapQueryParams = None\<rparr>]))"

definition extractPathParams ::
    "('s, 'h) Ext \<Rightarrow> MappedAttributeExpr \<Rightarrow> AttributeExpr \<Rightarrow> 's \<Rightarrow> ParamData list \<times> 's" where
  "extractPathParams x a serviceType scope =
     extractPathParams_walk x serviceType (WalkMappedAttr x a) scope []"

text \<open>
  \<open>extractQueryParams\<close>: as above, with the pointer, map and map-of-string-slice
  flags. \<open>MapStringSlice\<close> dereferences \<open>AsArray\<close> of the map's element type once
  that type has kind array.
\<close>

fun extractQueryParams_walk ::
    "('s, 'h) Ext \<Rightarrow> MappedAttributeExpr \<Rightarrow> AttributeExpr
      \<Rightarrow> (string \<times> string \<times> bool \<times> AttributeExpr) list \<Rightarrow> 's
      \<Rightarrow> ParamData list \<Rightarrow> error + (ParamData list \<times> 's)" where
  "extractQueryParams_walk x a serviceType [] scope params = Inr (params, scope)"
| "extractQueryParams_walk x a serviceType ((name, elem, required, c) # visits) scope params =
     (let (varn, scope1) = Unique x scope (Goify x name False);
          arr = AsArray x (Type c);
          mp = AsMap x (Type c);
          typeRef = GoTypeRef x scope1 c;
          typeRef = (if IsPrimitivePointer x (ma_Attribute a) name True
                     then ''*'' @ typeRef else typeRef);
          fieldName = Goify x name True;
          fieldName = (if \<not> IsObject x (Type serviceType) then [] else fieldName)
      in case (case mp of
                 None \<Rightarrow> Inr False
               | Some (kt, et) \<Rightarrow>
                   if Kind x (Type kt) = StringKind \<and> Kind x (Type et) = ArrayKind
                   then (case AsArray x (Type et) of
                           None \<Rightarrow> Inl NilDereference
                         | Some el \<Rightarrow> Inr (Kind x (Type el) = StringKind))
                   else Inr False) of
           Inl err \<Rightarrow> Inl err
         | Inr mapStringSlice \<Rightarrow>
             extractQueryParams_walk x a serviceType visits scope1
               (params @ [\<lparr>p_Name = elem, p_AttributeName = name,
                  p_Description = Description c, p_FieldName = fieldName, p_VarName = varn,
                  p_Type = Type c, p_TypeName = GoTypeName x scope1 c, p_TypeRef = typeRef,
                  p_Required = required,
                  p_Pointer = IsPrimitivePointer x (ma_Attribute a) name True,
                  p_StringSlice =
                    (case arr of None \<Rightarrow> False | Some el \<Rightarrow> Kind x (Type el) = StringKind),
                  p_Slice = (arr \<noteq> None), p_MapStringSlice = mapStringSlice,
                  p_Map = (mp \<noteq> None),
                  p_Validate =
                    RecursiveValidationCode x c required False (DefaultValue c \<noteq> None) varn,
                  p_DefaultValue = DefaultValue c, p_MapQueryParams = None\<rparr>]))"

definition extractQueryParams ::
    "('s, 'h) Ext \<Rightarrow> MappedAttributeExpr \<Rightarrow> AttributeExpr \<Rightarrow> 's
      \<Rightarrow> error + (ParamData list \<times> 's)" where
  "extractQueryParams x a serviceType scope =
     extractQueryParams_walk x a serviceType (WalkMappedAttr x a) scope []"

text \<open>
  \<open>extractHeaders\<close>: the loop ranges over the object behind the mapped attribute
  (dereferenced, so a \<open>nil\<close> object panics). When the service type is an object the
  header attribute is looked up in it and dereferenced afterwards.
\<close>

fun extractHeaders_loop ::
    "('s, 'h) Ext \<Rightarrow> MappedAttributeExpr \<Rightarrow> AttributeExpr \<Rightarrow> bool
      \<Rightarrow> (string \<times> AttributeExpr) list \<Rightarrow> 's \<Rightarrow> HeaderData list
      \<Rightarrow> error + (HeaderData list \<times> 's)" where
  "extractHeaders_loop x a serviceType req [] scope headers = Inr (headers, scope)"
| "extractHeaders_loop x a serviceType req (na # nats) scope headers =
     (let name = fst na;
          elem = ElemName x a name;
          (varn, scope1) = Unique x scope (Goify x name False);
          isObj = IsObject x (Type serviceType);
          hattr = (if isObj then Find x serviceType name else Some serviceType);
          required = (if isObj then IsRequired x serviceType name else True);
          fieldName = (if isObj then Goify x name True else []);
          pointer = (if isObj then IsPrimitivePointer x serviceType name req else False)
      in case hattr of
           None \<Rightarrow> Inl NilDereference
         | Some hattr \<Rightarrow>
             (let arr = AsArray x (Type hattr);
                  typeRef = GoTypeRef x scope1 hattr;
                  typeRef = (if pointer then ''*'' @ typeRef else typeRef)
              in extractHeaders_loop x a serviceType req nats scope1
                   (headers @ [\<lparr>h_Name = elem, h_AttributeName = name,
                      h_Description = Description hattr,
                      h_CanonicalName = CanonicalHeaderKey x elem, h_FieldName = fieldName,
                      h_VarName = varn, h_TypeName = GoTypeName x scope1 hattr,
                      h_TypeRef = typeRef, h_Required = required, h_Pointer = pointer,
                      h_StringSlice =
                        (case arr of None \<Rightarrow> False
                         | Some el \<Rightarrow> Kind x (Type el) = StringKind),
                      h_Slice = (arr \<noteq> None), h_Type = Type hattr,
                      h_Validate =
                        RecursiveValidationCode x hattr required False
                          (DefaultValue hattr \<noteq> None) varn,
                      h_DefaultValue = DefaultValue hattr\<rparr>])))"

definition extractHeaders ::
    "('s, 'h) Ext \<Rightarrow> MappedAttributeExpr \<Rightarrow> AttributeExpr \<Rightarrow> bool \<Rightarrow> 's
      \<Rightarrow> error + (HeaderData list \<times> 's)" where
  "extractHeaders x a serviceType req scope =
     (case AsObject x (Type (ma_Attribute a)) of
        None \<Rightarrow> Inl NilDereference
      | Some nats \<Rightarrow> extractHeaders_loop x a serviceType req nats scope [])"

section \<open>Body types\<close>

text \<open>
  Modelled from the spec: \<open>goTypeDef\<close> (package http/codegen), which renders the
  definition of a wire type, is not among the sources. The specification represents a
  field as possibly absent when it is not required and has no default, and as always
  present otherwise; the comments of service_data.go at the calls of \<open>goTypeDef\<close>
  give the meaning of its two flags: with \<open>ptr\<close> the type uses pointer fields
  whether or not the attribute is required or has a default value, and \<open>useDefault\<close>
  tells to consider default values (a field with a default is initialised, so it can
  never be nil). The model keeps, for each field of the object behind the attribute, its
  name and whether it is a pointer.
\<close>

definition fieldPointer :: "bool \<Rightarrow> bool \<Rightarrow> bool \<Rightarrow> bool \<Rightarrow> bool" where
  "fieldPointer ptr useDefault required hasDefault =
     (ptr \<or> (\<not> required \<and> (\<not> hasDefault \<or> \<not> useDefault)))"

definition goTypeDef ::
    "('s, 'h) Ext \<Rightarrow> 's \<Rightarrow> AttributeExpr \<Rightarrow> bool \<Rightarrow> bool \<Rightarrow> FieldDef list" where
  "goTypeDef x scope att ptr useDefault =
     (case AsObject x (Type att) of
        None \<Rightarrow> []
      | Some nats \<Rightarrow>
          map (\<lambda>na. \<lparr>f_Name = fst na,
                 f_Pointer = fieldPointer ptr useDefault (IsRequired x att (fst na))
                               (DefaultValue (snd na) \<noteq> None)\<rparr>) nats)"

text \<open>
  The designated origin attribute of a body (\<open>Body("name")\<close>): its name and type,
  or the type of the whole source attribute when the body designates none. The source
  indexes the first metadata value, then dereferences the object behind the source type
  and the attribute found in it.
\<close>

definition originAttribute ::
    "('s, 'h) Ext \<Rightarrow> AttributeExpr \<Rightarrow> DataType \<Rightarrow> error + (string \<times> DataType)" where
  "originAttribute x body srcType =
     (case Metadata body ''origin:attribute'' of
        None \<Rightarrow> Inr ([], srcType)
      | Some ov \<Rightarrow>
          (case ov of
             [] \<Rightarrow> Inl IndexOutOfRange
           | origin # _ \<Rightarrow>
               (case Object_Attribute x (AsObject x srcType) origin of
                  Inl err \<Rightarrow> Inl err
                | Inr None \<Rightarrow> Inl NilDereference
                | Inr (Some oa) \<Rightarrow> Inr (origin, Type oa))))"

text \<open>
  \<open>buildBodyType\<close> (service_data.go), first the block that builds the constructor
  of the body (\<open>init\<close>). With the metadata \<open>origin:attribute\<close> the source type is
  the type of that attribute of \<open>att\<close> and the source variable selects the
  attribute. An error of \<open>GoTypeTransform\<close> is printed and the construction goes
  on.
\<close>

definition buildBodyType_init ::
    "('s, 'h) Ext \<Rightarrow> ServiceInfo \<Rightarrow> EndpointExpr \<Rightarrow> AttributeExpr \<Rightarrow> AttributeExpr
      \<Rightarrow> bool \<Rightarrow> bool \<Rightarrow> bool \<Rightarrow> string \<Rightarrow> string \<Rightarrow> ('s, 'h) GenState
      \<Rightarrow> error + (InitData option \<times> ('s, 'h) GenState)" where
  "buildBodyType_init x svc e body att req svr viewed pkg validateDef sd =
     (if (svr \<and> \<not> req \<or> \<not> svr \<and> req) \<and> Type att \<noteq> Empty \<and> needInit (Type body) then
        (let name = Sprintf x ''New%s'' [Goify x (GoTypeName x (Scope sd) body) True];
             ctx = (if \<not> req then ''response'' else ''request'');
             rctx = (if \<not> req then ''result'' else ''payload'');
             sourceVar = (if \<not> req then ''res'' else ''p'');
             desc = Sprintf x
               ''%s builds the HTTP %s body from the %s of the %q endpoint of the %q service.''
               [name, ctx, rctx, e_Name e, sv_Name svc]
         in case originAttribute x body (Type att) of
              Inl err \<Rightarrow> Inl err
            | Inr (origin, srcType) \<Rightarrow>
                (case GoTypeTransform x srcType (Type body)
                        (if Metadata body ''origin:attribute'' = None then sourceVar
                         else sourceVar @ ''.'' @ Goify x origin True)
                        ''body'' pkg [] False (Scope sd) of
                   (code, helpers, err) \<Rightarrow>
                     (let sd1 = (case err of
                                   None \<Rightarrow> sd
                                 | Some msg \<Rightarrow> sd\<lparr>Stdout := Stdout sd @ [msg]\<rparr>);
                          sd2 = (if svr
                                 then sd1\<lparr>ServerTransformHelpers :=
                                        AppendHelpers x (ServerTransformHelpers sd1) helpers\<rparr>
                                 else sd1\<lparr>ClientTransformHelpers :=
                                        AppendHelpers x (ClientTransformHelpers sd1) helpers\<rparr>);
                          init = InitData0\<lparr>i_Name := name, i_Description := desc,
                                   i_ReturnTypeRef := GoTypeRef x (Scope sd) body,
                                   i_ReturnTypeAttribute := Goify x origin True\<rparr>;
                          ref = (if viewed then sourceVar @ ''.Projected'' else sourceVar);
                          arg = InitArgData0\<lparr>a_Name := sourceVar, a_Ref := ref,
                                   a_TypeRef := GoFullTypeRef x (Scope sd) att pkg,
                                   a_Validate := validateDef\<rparr>
                      in Inr (Some (if svr
                                    then init\<lparr>i_ServerCode := code, i_ServerArgs := [arg]\<rparr>
                                    else init\<lparr>i_ClientCode := code, i_ClientArgs := [arg]\<rparr>),
                              sd2))))
      else Inr (None, sd))"

text \<open>
  The block of \<open>buildBodyType\<close> that names the type and renders its definition and
  validation: the variable name, the definition, the description, the validation code
  and the call to it. \<open>marshaled\<close> is true for the client request body only.
\<close>

definition buildBodyType_names ::
    "('s, 'h) Ext \<Rightarrow> ServiceInfo \<Rightarrow> EndpointExpr \<Rightarrow> AttributeExpr \<Rightarrow> bool \<Rightarrow> bool \<Rightarrow> bool
      \<Rightarrow> ('s, 'h) GenState \<Rightarrow> string \<times> FieldDef list \<times> string \<times> string \<times> string" where
  "buildBodyType_names x svc e body req svr viewed sd =
     (let marshaled = (\<not> svr \<and> req)
      in case Type body of
           UserType ut \<Rightarrow>
             (let varname = Goify x (Name x (Type body)) True;
                  def = goTypeDef x (Scope sd) (UserTypeAttribute x ut) (\<not> marshaled) marshaled;
                  ctx = (if \<not> req then ''response'' else ''request'');
                  desc = Sprintf x
                    ''%s is the type of the %q service %q endpoint HTTP %s body.''
                    [varname, sv_Name svc, e_Name e, ctx];
                  validateDef =
                    (if svr \<and> req \<or> (\<not> svr \<and> \<not> req \<and> \<not> viewed)
                     then RecursiveValidationCode x body True (\<not> marshaled) marshaled ''body''
                     else []);
                  validateRef =
                    (if (svr \<and> req \<or> (\<not> svr \<and> \<not> req \<and> \<not> viewed)) \<and> validateDef \<noteq> []
                     then ''err = body.Validate()'' else [])
              in (varname, def, desc, validateDef, validateRef))
         | _ \<Rightarrow>
             (GoTypeRef x (Scope sd) body, [], Description body, [],
              RecursiveValidationCode x body True (\<not> marshaled) marshaled ''body''))"

text \<open>
  \<open>buildBodyType\<close>: \<open>nil\<close> for an empty body; otherwise the type data with its
  constructor, if one is built.
\<close>

definition buildBodyType ::
    "('s, 'h) Ext \<Rightarrow> ServiceInfo \<Rightarrow> EndpointExpr \<Rightarrow> AttributeExpr \<Rightarrow> AttributeExpr
      \<Rightarrow> bool \<Rightarrow> bool \<Rightarrow> bool \<Rightarrow> string \<Rightarrow> ('s, 'h) GenState
      \<Rightarrow> error + (TypeData option \<times> ('s, 'h) GenState)" where
  "buildBodyType x svc e body att req svr viewed pkg sd =
     (if Type body = Empty then Inr (None, sd)
      else
        (case buildBodyType_names x svc e body req svr viewed sd of
           (varname, def, desc, validateDef, validateRef) \<Rightarrow>
             (case buildBodyType_init x svc e body att req svr viewed pkg validateDef sd of
                Inl err \<Rightarrow> Inl err
              | Inr (init, sd') \<Rightarrow>
                  Inr (Some \<lparr>t_Name = Name x (Type body), t_VarName = varname,
                              t_Description = desc, t_Init = init, t_Def = def,
                              t_Ref = GoTypeRef x (Scope sd) body,
                              t_ValidateDef = validateDef, t_ValidateRef = validateRef\<rparr>,
                       sd'))))"


section \<open>The payload\<close>

text \<open>
  The three loops of \<open>buildPayloadData\<close> that decide \<open>mustValidate\<close>; each leaves
  at the first element that asks for validation. The loop over the path parameters does
  not read \<open>Required\<close>. The loop over the headers is also the one of
  \<open>buildResultData\<close>.
\<close>

fun pathParams_mustValidate :: "ParamData list \<Rightarrow> bool" where
  "pathParams_mustValidate [] = False"
| "pathParams_mustValidate (p # ps) =
     (if p_Validate p \<noteq> [] \<or> needConversion (p_Type p) then True
      else pathParams_mustValidate ps)"

fun queryParams_mustValidate :: "ParamData list \<Rightarrow> bool" where
  "queryParams_mustValidate [] = False"
| "queryParams_mustValidate (q # qs) =
     (if p_Validate q \<noteq> [] \<or> p_Required q \<or> needConversion (p_Type q) then True
      else queryParams_mustValidate qs)"

fun headers_mustValidate :: "HeaderData list \<Rightarrow> bool" where
  "headers_mustValidate [] = False"
| "headers_mustValidate (h # hs) =
     (if h_Validate h \<noteq> [] \<or> h_Required h \<or> needConversion (h_Type h) then True
      else headers_mustValidate hs)"

text \<open>
  The parameter that maps the query string to the whole payload (\<open>MapQueryParams\<close> is
  the empty string) or to one of its attributes, whose lookup is dereferenced.
\<close>

definition buildPayloadData_mapQueryParam ::
    "('s, 'h) Ext \<Rightarrow> EndpointExpr \<Rightarrow> string \<Rightarrow> 's \<Rightarrow> error + ParamData" where
  "buildPayloadData_mapQueryParam x e n scope =
     (let payload = me_Payload (e_MethodExpr e)
      in case (if n \<noteq> []
               then (case Object_Attribute x (AsObject x (Type payload)) n of
                       Inl err \<Rightarrow> Inl err
                     | Inr None \<Rightarrow> Inl NilDereference
                     | Inr (Some pAtt) \<Rightarrow>
                         Inr (Goify x n True, n, IsRequired x payload n, Type pAtt, pAtt))
               else Inr ([], ''query'', False, Type payload, payload)) of
           Inl err \<Rightarrow> Inl err
         | Inr (fieldName, name, required, pType, pAtt) \<Rightarrow>
             (let varn = Goify x name False
              in Inr (ParamData0\<lparr>p_Name := name, p_VarName := varn, p_FieldName := fieldName,
                        p_Required := required, p_Type := pType,
                        p_TypeName := GoTypeName x scope pAtt,
                        p_TypeRef := GoTypeRef x scope pAtt,
                        p_Map := (AsMap x (Type payload) \<noteq> None),
                        p_Validate := RecursiveValidationCode x payload required False False varn,
                        p_DefaultValue := DefaultValue pAtt,
                        p_MapQueryParams := Some n\<rparr>)))"

text \<open>
  The first block of \<open>buildPayloadData\<close>: the two body types, the parameters and
  headers, and the request data with \<open>MustValidate\<close>. The map query parameter is
  returned too, for the last block of the function.
\<close>

definition buildPayloadData_request ::
    "('s, 'h) Ext \<Rightarrow> ServiceInfo \<Rightarrow> EndpointExpr \<Rightarrow> ('s, 'h) GenState
      \<Rightarrow> error + (RequestData \<times> ParamData option \<times> ('s, 'h) GenState)" where
  "buildPayloadData_request x svc e sd =
     (let payload = me_Payload (e_MethodExpr e)
      in case buildBodyType x svc e (e_Body e) payload True True False (sv_PkgName svc) sd of
           Inl err \<Rightarrow> Inl err
         | Inr (serverBodyData, sd1) \<Rightarrow>
       (case buildBodyType x svc e (e_Body e) payload True False False (sv_PkgName svc) sd1 of
           Inl err \<Rightarrow> Inl err
         | Inr (clientBodyData, sd2) \<Rightarrow>
       (case extractPathParams x (e_PathParams e) payload (Scope sd2) of
           (paramsData, scope3) \<Rightarrow>
       (case extractQueryParams x (e_QueryParams e) payload scope3 of
           Inl err \<Rightarrow> Inl err
         | Inr (queryData, scope4) \<Rightarrow>
       (case extractHeaders x (e_Headers e) payload True scope4 of
           Inl err \<Rightarrow> Inl err
         | Inr (headersData, scope5) \<Rightarrow>
       (case (case e_MapQueryParams e of
                None \<Rightarrow> Inr None
              | Some n \<Rightarrow>
                  (case buildPayloadData_mapQueryParam x e n scope5 of
                     Inl err \<Rightarrow> Inl err
                   | Inr mq \<Rightarrow> Inr (Some mq))) of
           Inl err \<Rightarrow> Inl err
         | Inr mapQueryParam \<Rightarrow>
             (let queryData = (case mapQueryParam of
                                 None \<Rightarrow> queryData
                               | Some mq \<Rightarrow> queryData @ [mq]);
                  sd6 = sd2\<lparr>Scope := scope5\<rparr>;
                  sd7 = (case serverBodyData of
                           None \<Rightarrow> sd6
                         | Some sbd \<Rightarrow>
                             sd6\<lparr>ServerTypeNames := insert (t_Name sbd) (ServerTypeNames sd6),
                                 ClientTypeNames := insert (t_Name sbd) (ClientTypeNames sd6)\<rparr>);
                  mustValidate =
                    (if pathParams_mustValidate paramsData then True
                     else if queryParams_mustValidate queryData then True
                     else headers_mustValidate headersData)
              in Inr (\<lparr>r_PathParams = paramsData, r_QueryParams = queryData,
                        r_Headers = headersData, r_ServerBody = serverBodyData,
                        r_ClientBody = clientBodyData, r_PayloadInit = None,
                        r_MustValidate = mustValidate\<rparr>,
                      mapQueryParam, sd7))))))))"

text \<open>
  The constructor arguments that \<open>buildPayloadData\<close> derives from the path
  parameters, the query parameters and the headers of the request, in this order.
\<close>

definition buildPayloadData_args ::
    "('s, 'h) Ext \<Rightarrow> AttributeExpr \<Rightarrow> RequestData \<Rightarrow> InitArgData list" where
  "buildPayloadData_args x payload request =
     map (\<lambda>p. InitArgData0\<lparr>a_Name := p_VarName p, a_Description := p_Description p,
            a_Ref := p_VarName p, a_FieldName := p_FieldName p, a_TypeName := p_TypeName p,
            a_TypeRef := p_TypeRef p,
            a_Pointer := (\<not> p_Required p \<and> \<not> p_Pointer p
                          \<and> IsPrimitivePointer x payload (p_Name p) True),
            a_Required := p_Required p, a_Validate := p_Validate p\<rparr>) (r_PathParams request)
     @ map (\<lambda>p. InitArgData0\<lparr>a_Name := p_VarName p, a_Ref := p_VarName p,
            a_FieldName := p_FieldName p, a_TypeName := p_TypeName p,
            a_TypeRef := p_TypeRef p, a_Required := p_Required p,
            a_DefaultValue := p_DefaultValue p, a_Validate := p_Validate p\<rparr>)
         (r_QueryParams request)
     @ map (\<lambda>h. InitArgData0\<lparr>a_Name := h_VarName h, a_Ref := h_VarName h,
            a_FieldName := h_FieldName h, a_TypeName := h_TypeName h,
            a_TypeRef := h_TypeRef h, a_Required := h_Required h,
            a_DefaultValue := h_DefaultValue h, a_Validate := h_Validate h\<rparr>)
         (r_Headers request)"

text \<open>
  The arguments initialised from command line flags: the user name and password of the
  first basic authentication scheme of the first requirement that has one. The two
  attributes are looked up in the payload and dereferenced. The validation code of the
  password argument is rendered from the user name attribute, as in the source.
\<close>

fun schemes_cliArgs ::
    "('s, 'h) Ext \<Rightarrow> AttributeExpr \<Rightarrow> 's \<Rightarrow> SchemeData list
      \<Rightarrow> error + InitArgData list option" where
  "schemes_cliArgs x payload scope [] = Inr None"
| "schemes_cliArgs x payload scope (sc # scs) =
     (if sc_Type sc = ''Basic'' then
        (case Find x payload (sc_UsernameAttr sc) of
           None \<Rightarrow> Inl NilDereference
         | Some uatt \<Rightarrow>
             (case Find x payload (sc_PasswordAttr sc) of
                None \<Rightarrow> Inl NilDereference
              | Some patt \<Rightarrow>
                  Inr (Some
                    [InitArgData0\<lparr>a_Name := sc_UsernameAttr sc,
                       a_FieldName := sc_UsernameField sc, a_Description := Description uatt,
                       a_Ref := sc_UsernameAttr sc, a_Required := sc_UsernameRequired sc,
                       a_TypeName := GoTypeName x scope uatt, a_TypeRef := GoTypeRef x scope uatt,
                       a_Pointer := sc_UsernamePointer sc,
                       a_Validate := RecursiveValidationCode x uatt True False False
                                       (sc_UsernameAttr sc)\<rparr>,
                     InitArgData0\<lparr>a_Name := sc_PasswordAttr sc,
                       a_FieldName := sc_PasswordField sc, a_Description := Description patt,
                       a_Ref := sc_PasswordAttr sc, a_Required := sc_PasswordRequired sc,
                       a_TypeName := GoTypeName x scope patt, a_TypeRef := GoTypeRef x scope patt,
                       a_Pointer := sc_PasswordPointer sc,
                       a_Validate := RecursiveValidationCode x uatt True False False
                                       (sc_PasswordAttr sc)\<rparr>])))
      else schemes_cliArgs x payload scope scs)"

fun requirements_cliArgs ::
    "('s, 'h) Ext \<Rightarrow> AttributeExpr \<Rightarrow> 's \<Rightarrow> SchemeData list list
      \<Rightarrow> error + InitArgData list" where
  "requirements_cliArgs x payload scope [] = Inr []"
| "requirements_cliArgs x payload scope (r # rs) =
     (case schemes_cliArgs x payload scope r of
        Inl err \<Rightarrow> Inl err
      | Inr (Some cliArgs) \<Rightarrow> Inr cliArgs
      | Inr None \<Rightarrow> requirements_cliArgs x payload scope rs)"

text \<open>
  Two calls of \<open>GoTypeTransform\<close> in a row, the first for the server code
  (\<open>unmarshal\<close> true) and the second for the client code, as \<open>buildPayloadData\<close>
  makes them: each assigns the one variable \<open>err\<close>, and the helpers of a call are
  recorded when that call returned no error. The result holds the two codes and the
  value of \<open>err\<close> after the second call.
\<close>

definition transformBoth ::
    "('s, 'h) Ext \<Rightarrow> DataType \<Rightarrow> DataType \<Rightarrow> string \<Rightarrow> string \<Rightarrow> ('s, 'h) GenState
      \<Rightarrow> (string \<times> string \<times> string option) \<times> ('s, 'h) GenState" where
  "transformBoth x source target sourceVar pkg sd =
     (case GoTypeTransform x source target sourceVar ''v'' [] pkg True (Scope sd) of
        (serverCode, helpers, err) \<Rightarrow>
          (let sd1 = (if err = None
                      then sd\<lparr>ServerTransformHelpers :=
                             AppendHelpers x (ServerTransformHelpers sd) helpers\<rparr>
                      else sd)
           in case GoTypeTransform x source target sourceVar ''v'' [] pkg False (Scope sd1) of
                (clientCode, helpers, err) \<Rightarrow>
                  (let sd2 = (if err = None
                              then sd1\<lparr>ClientTransformHelpers :=
                                     AppendHelpers x (ClientTransformHelpers sd1) helpers\<rparr>
                              else sd1)
                   in ((serverCode, clientCode, err), sd2))))"

text \<open>
  The block of \<open>buildPayloadData\<close> that renders the code of the payload constructor
  and prints the error held by \<open>err\<close> at its end, if any. The result holds the
  server code, the client code and the origin attribute.
\<close>

definition buildPayloadData_transform ::
    "('s, 'h) Ext \<Rightarrow> ServiceInfo \<Rightarrow> EndpointExpr \<Rightarrow> ('s, 'h) GenState
      \<Rightarrow> error + ((string \<times> string \<times> string) \<times> ('s, 'h) GenState)" where
  "buildPayloadData_transform x svc e sd =
     (let payload = me_Payload (e_MethodExpr e);
          body = Type (e_Body e)
      in case (if body \<noteq> Empty then
                 (case originAttribute x (e_Body e) (Type payload) of
                    Inl err \<Rightarrow> Inl err
                  | Inr (origin, ptype) \<Rightarrow>
                      (case transformBoth x body ptype ''body'' (sv_PkgName svc) sd of
                         ((serverCode, clientCode, err), sd') \<Rightarrow>
                           Inr (serverCode, clientCode, origin, err, sd')))
               else if IsArray x (Type payload) \<or> IsMap x (Type payload) then
                 (case AsObject x (Type (ma_Attribute (e_Params e))) of
                    None \<Rightarrow> Inl NilDereference
                  | Some [] \<Rightarrow> Inr ([], [], [], None, sd)
                  | Some (p0 # _) \<Rightarrow>
                      (case transformBoth x (Type (snd p0)) (Type payload)
                              (Goify x (fst p0) False) (sv_PkgName svc) sd of
                         ((serverCode, clientCode, err), sd') \<Rightarrow>
                           Inr (serverCode, clientCode, [], err, sd')))
               else Inr ([], [], [], None, sd)) of
           Inl err \<Rightarrow> Inl err
         | Inr (serverCode, clientCode, origin, err, sd') \<Rightarrow>
             Inr ((serverCode, clientCode, origin),
                  (case err of
                     None \<Rightarrow> sd'
                   | Some msg \<Rightarrow> sd'\<lparr>Stdout := Stdout sd' @ [msg]\<rparr>)))"

text \<open>\<open>strings.HasPrefix\<close>.\<close>

definition HasPrefix :: "string \<Rightarrow> string \<Rightarrow> bool" where
  "HasPrefix s pre = (take (length pre) s = pre)"

text \<open>
  The payload constructor of \<open>buildPayloadData\<close>, built when the payload type needs
  initialisation. The method data \<open>ep\<close> is dereferenced there.
\<close>

definition buildPayloadData_init ::
    "('s, 'h) Ext \<Rightarrow> ServiceInfo \<Rightarrow> EndpointExpr \<Rightarrow> RequestData \<Rightarrow> ('s, 'h) GenState
      \<Rightarrow> error + (InitData option \<times> ('s, 'h) GenState)" where
  "buildPayloadData_init x svc e request sd =
     (let payload = me_Payload (e_MethodExpr e);
          body = Type (e_Body e)
      in if needInit (Type payload) then
           (case Method x svc (me_Name (e_MethodExpr e)) of
              None \<Rightarrow> Inl NilDereference
            | Some ep \<Rightarrow>
                (let n = Goify x (md_Name ep) True;
                     p = Goify x (md_Payload ep) True;
                     (name, scope1) =
                       (if HasPrefix p n
                        then (case HashedUnique x (Scope sd) (Type payload) p of
                                (p', sc') \<Rightarrow> (Sprintf x ''New%s'' [p'], sc'))
                        else (Sprintf x ''New%s%s'' [n, p], Scope sd));
                     sd1 = sd\<lparr>Scope := scope1\<rparr>;
                     desc = Sprintf x ''%s builds a %s service %s endpoint payload.''
                              [name, sv_Name svc, e_Name e];
                     isObject = IsObject x (Type payload);
                     bodyAtt = AttributeExpr body [] None None Map.empty;
                     ref = (if IsObject x body then ''&body'' else ''body'');
                     (svcode, cvcode) =
                       (case body of
                          UserType ut \<Rightarrow>
                            (if Validation (UserTypeAttribute x ut) \<noteq> None
                             then (RecursiveValidationCode x (UserTypeAttribute x ut)
                                     True False False ''body'',
                                   RecursiveValidationCode x (UserTypeAttribute x ut)
                                     True False True ''body'')
                             else ([], []))
                        | _ \<Rightarrow> ([], []));
                     bodyArg = InitArgData0\<lparr>a_Name := ''body'', a_Ref := ref,
                                 a_TypeName := GoTypeName x scope1 bodyAtt,
                                 a_TypeRef := GoTypeRef x scope1 bodyAtt, a_Required := True\<rparr>;
                     serverArgs = (if body \<noteq> Empty then [bodyArg\<lparr>a_Validate := svcode\<rparr>]
                                   else []);
                     clientArgs = (if body \<noteq> Empty then [bodyArg\<lparr>a_Validate := cvcode\<rparr>]
                                   else []);
                     args = buildPayloadData_args x payload request
                 in case requirements_cliArgs x payload scope1 (md_Requirements ep) of
                      Inl err \<Rightarrow> Inl err
                    | Inr cliArgs \<Rightarrow>
                        (case buildPayloadData_transform x svc e sd1 of
                           Inl err \<Rightarrow> Inl err
                         | Inr ((serverCode, clientCode, origin), sd2) \<Rightarrow>
                             Inr (Some \<lparr>i_Name = name, i_Description = desc,
                                    i_ServerArgs = serverArgs @ args,
                                    i_ClientArgs = clientArgs @ args, i_CLIArgs = cliArgs,
                                    i_ReturnTypeName =
                                      GoFullTypeName x (Scope sd2) payload (sv_PkgName svc),
                                    i_ReturnTypeRef =
                                      GoFullTypeRef x (Scope sd2) payload (sv_PkgName svc),
                                    i_ReturnTypeAttribute = Goify x origin True,
                                    i_ReturnIsStruct = isObject,
                                    i_ReturnIsPrimitivePointer = False,
                                    i_ServerCode = serverCode, i_ClientCode = clientCode\<rparr>,
                                  sd2))))
         else Inr (None, sd))"

text \<open>
  \<open>buildPayloadData\<close> (service_data.go): the request data, the payload
  constructor, and the value the decoder returns when there is no constructor.
\<close>

definition buildPayloadData ::
    "('s, 'h) Ext \<Rightarrow> ServiceInfo \<Rightarrow> EndpointExpr \<Rightarrow> ('s, 'h) GenState
      \<Rightarrow> error + (PayloadData \<times> ('s, 'h) GenState)" where
  "buildPayloadData x svc e sd =
     (let payload = me_Payload (e_MethodExpr e)
      in case buildPayloadData_request x svc e sd of
           Inl err \<Rightarrow> Inl err
         | Inr (request, mapQueryParam, sd1) \<Rightarrow>
             (case buildPayloadData_init x svc e request sd1 of
                Inl err \<Rightarrow> Inl err
              | Inr (init, sd2) \<Rightarrow>
                  (let name = (if Type payload \<noteq> Empty
                               then GoFullTypeName x (Scope sd2) payload (sv_PkgName svc)
                               else []);
                       ref = (if Type payload \<noteq> Empty
                              then GoFullTypeRef x (Scope sd2) payload (sv_PkgName svc)
                              else [])
                   in case (if init = None then
                              (case AsObject x (Type (ma_Attribute (e_Params e))) of
                                 Some (p0 # _) \<Rightarrow> Inr (Goify x (fst p0) False)
                               | _ \<Rightarrow>
                                   (case AsObject x (Type (ma_Attribute (e_Headers e))) of
                                      Some (h0 # _) \<Rightarrow> Inr (Goify x (fst h0) False)
                                    | _ \<Rightarrow>
                                        (if e_MapQueryParams e = Some []
                                         then (case mapQueryParam of
                                                 None \<Rightarrow> Inl NilDereference
                                               | Some mq \<Rightarrow> Inr (p_Name mq))
                                         else Inr [])))
                            else Inr []) of
                        Inl err \<Rightarrow> Inl err
                      | Inr returnValue \<Rightarrow>
                          Inr (\<lparr>pd_Name = name, pd_Ref = ref,
                                 pd_Request = request\<lparr>r_PayloadInit := init\<rparr>,
                                 pd_DecoderReturnValue = returnValue\<rparr>,
                               sd2))))"

section \<open>The result\<close>

text \<open>
  The result attribute that \<open>buildResultData\<close> and \<open>buildResponseResultInit\<close>
  work on: the result of the method or, for a viewed result, the attribute
  \<open>projected\<close> of the viewed result type (a pointer that is \<open>nil\<close> when the
  attribute is missing), with the package of the result. The method data is
  dereferenced.
\<close>

definition resultAttribute ::
    "('s, 'h) Ext \<Rightarrow> ServiceInfo \<Rightarrow> EndpointExpr
      \<Rightarrow> error + (MethodData \<times> AttributeExpr option \<times> string \<times> bool)" where
  "resultAttribute x svc e =
     (case Method x svc (me_Name (e_MethodExpr e)) of
        None \<Rightarrow> Inl NilDereference
      | Some md \<Rightarrow>
          (case md_ViewedResult md of
             None \<Rightarrow> Inr (md, Some (me_Result (e_MethodExpr e)), sv_PkgName svc, False)
           | Some vt \<Rightarrow>
               (case Object_Attribute x (AsObject x vt) ''projected'' of
                  Inl err \<Rightarrow> Inl err
                | Inr projected \<Rightarrow> Inr (md, projected, sv_ViewsPkg svc, True))))"

text \<open>
  \<open>buildResponseResultInit\<close> (service_data.go): the constructor that builds the
  result from a response, on the client. There is one call of \<open>GoTypeTransform\<close> on
  each path; its error is printed and the construction goes on.
\<close>

definition buildResponseResultInit_transform ::
    "('s, 'h) Ext \<Rightarrow> ServiceInfo \<Rightarrow> EndpointExpr \<Rightarrow> HTTPResponseExpr \<Rightarrow> MethodData
      \<Rightarrow> AttributeExpr \<Rightarrow> string \<Rightarrow> ('s, 'h) GenState
      \<Rightarrow> error + ((string \<times> string \<times> bool \<times> InitArgData list) \<times> ('s, 'h) GenState)" where
  "buildResponseResultInit_transform x svc e resp md result pkg sd =
     (let body = Type (rx_Body resp)
      in case (if body \<noteq> Empty then
                 (case (case Metadata (rx_Body resp) ''origin:attribute'' of
                          None \<Rightarrow> Inr ([], False, Some result)
                        | Some ov \<Rightarrow>
                            (case ov of
                               [] \<Rightarrow> Inl IndexOutOfRange
                             | origin # _ \<Rightarrow>
                                 (case Object_Attribute x (AsObject x (Type result)) origin of
                                    Inl err \<Rightarrow> Inl err
                                  | Inr respBody \<Rightarrow>
                                      Inr (origin, IsPrimitivePointer x result origin True,
                                           respBody)))) of
                    Inl err \<Rightarrow> Inl err
                  | Inr (origin, pointer, respBody) \<Rightarrow>
                      (let ref = (if IsObject x body then ''&body'' else ''body'');
                           pointer = (if IsObject x body then False else pointer);
                           vcode = (case body of
                                      UserType ut \<Rightarrow>
                                        (if Validation (UserTypeAttribute x ut) \<noteq> None
                                         then RecursiveValidationCode x (UserTypeAttribute x ut)
                                                True False False ''body''
                                         else [])
                                    | _ \<Rightarrow> []);
                           clientArgs =
                             [InitArgData0\<lparr>a_Name := ''body'', a_Ref := ref,
                                a_TypeRef := GoTypeRef x (Scope sd)
                                               (AttributeExpr body [] None None Map.empty),
                                a_Validate := vcode\<rparr>]
                       in case respBody of
                            None \<Rightarrow> Inl NilDereference
                          | Some rb \<Rightarrow>
                              (case GoTypeTransform x body (Type rb) ''body'' ''v'' [] pkg
                                      (md_ViewedResult md = None) (Scope sd) of
                                 (code, helpers, err) \<Rightarrow>
                                   Inr (code, origin, pointer, clientArgs, err,
                                        (if err = None
                                         then sd\<lparr>ClientTransformHelpers :=
                                                AppendHelpers x (ClientTransformHelpers sd) helpers\<rparr>
                                         else sd)))))
               else if IsArray x (Type result) \<or> IsMap x (Type result) then
                 (case AsObject x (Type (ma_Attribute (e_QueryParams e))) of
                    None \<Rightarrow> Inl NilDereference
                  | Some [] \<Rightarrow> Inr ([], [], False, [], None, sd)
                  | Some (p0 # _) \<Rightarrow>
                      (case GoTypeTransform x (Type (snd p0)) (Type result)
                              (Goify x (fst p0) False) ''v'' [] (sv_PkgName svc) True (Scope sd) of
                         (code, helpers, err) \<Rightarrow>
                           Inr (code, [], False, [], err,
                                (if err = None
                                 then sd\<lparr>ClientTransformHelpers :=
                                        AppendHelpers x (ClientTransformHelpers sd) helpers\<rparr>
                                 else sd))))
               else Inr ([], [], False, [], None, sd)) of
           Inl err \<Rightarrow> Inl err
         | Inr (code, origin, pointer, clientArgs, err, sd') \<Rightarrow>
             Inr ((code, origin, pointer, clientArgs),
                  (case err of
                     None \<Rightarrow> sd'
                   | Some msg \<Rightarrow> sd'\<lparr>Stdout := Stdout sd' @ [msg]\<rparr>)))"

definition buildResponseResultInit ::
    "('s, 'h) Ext \<Rightarrow> ServiceInfo \<Rightarrow> EndpointExpr \<Rightarrow> HTTPResponseExpr \<Rightarrow> ('s, 'h) GenState
      \<Rightarrow> error + (InitData \<times> ('s, 'h) GenState)" where
  "buildResponseResultInit x svc e resp sd =
     (case resultAttribute x svc e of
        Inl err \<Rightarrow> Inl err
      | Inr (md, resultPtr, pkg, viewed) \<Rightarrow>
     (if Type (rx_Body resp) \<noteq> Empty \<and> Metadata (rx_Body resp) ''origin:attribute'' = Some []
      then Inl IndexOutOfRange
      else
     (case resultPtr of
        None \<Rightarrow> Inl NilDereference
      | Some result \<Rightarrow>
     (case buildResponseResultInit_transform x svc e resp md result pkg sd of
        Inl err \<Rightarrow> Inl err
      | Inr ((code, origin, pointer, clientArgs), sd1) \<Rightarrow>
     (case extractHeaders x (rx_Headers resp) result False (Scope sd1) of
        Inl err \<Rightarrow> Inl err
      | Inr (headers, scope2) \<Rightarrow>
          (let clientArgs = clientArgs @
                 map (\<lambda>h. InitArgData0\<lparr>a_Name := h_VarName h, a_Ref := h_VarName h,
                        a_FieldName := h_FieldName h, a_TypeRef := h_TypeRef h,
                        a_Validate := h_Validate h\<rparr>) headers;
               status = Goify x (StatusText x (rx_StatusCode resp)) True;
               n = Goify x (md_Name md) True;
               r = Goify x (md_Result md) True;
               (name, scope3) =
                 (if HasPrefix r n
                  then (case HashedUnique x scope2 (Type result) r of
                          (r', sc') \<Rightarrow> (Sprintf x ''New%s%s'' [r', status], sc'))
                  else (Sprintf x ''New%s%s%s'' [n, r, status], scope2))
           in Inr (\<lparr>i_Name = name,
                     i_Description = Sprintf x
                       ''%s builds a %q service %q endpoint result from a HTTP %q response.''
                       [name, sv_Name svc, e_Name e, status],
                     i_ServerArgs = [], i_ClientArgs = clientArgs, i_CLIArgs = [],
                     i_ReturnTypeName = GoFullTypeName x scope3 result pkg,
                     i_ReturnTypeRef = GoFullTypeRef x scope3 result pkg,
                     i_ReturnTypeAttribute = Goify x origin True,
                     i_ReturnIsStruct = IsObject x (Type result),
                     i_ReturnIsPrimitivePointer = pointer,
                     i_ServerCode = [], i_ClientCode = code\<rparr>,
                   sd1\<lparr>Scope := scope3\<rparr>)))))))"

record ResponseData =
  rs_StatusCode :: string
  rs_Description :: string
  rs_Headers :: "HeaderData list"
  rs_ServerBody :: "TypeData option"
  rs_ClientBody :: "TypeData option"
  rs_ResultInit :: "InitData option"
  rs_TagName :: string
  rs_TagValue :: string
  rs_TagRequired :: bool
  rs_MustValidate :: bool
  rs_ResultAttr :: string
  rs_ViewedResult :: bool

record ResultData =
  rd_Name :: string
  rd_Ref :: string
  rd_IsStruct :: bool
  rd_Responses :: "ResponseData list"
  rd_View :: string

text \<open>
  The body of the loop of \<open>buildResultData\<close> over the responses of the endpoint,
  after the test of the tag: the data of one response.
\<close>

definition buildResultData_response ::
    "('s, 'h) Ext \<Rightarrow> ServiceInfo \<Rightarrow> EndpointExpr \<Rightarrow> AttributeExpr option \<Rightarrow> bool \<Rightarrow> string
      \<Rightarrow> HTTPResponseExpr \<Rightarrow> ('s, 'h) GenState
      \<Rightarrow> error + (ResponseData \<times> ('s, 'h) GenState)" where
  "buildResultData_response x svc e resultPtr viewed pkg v sd =
     (case (case Metadata (rx_Body v) ''origin:attribute'' of
              None \<Rightarrow> Inr []
            | Some [] \<Rightarrow> Inl IndexOutOfRange
            | Some (origin # _) \<Rightarrow> Inr origin) of
        Inl err \<Rightarrow> Inl err
      | Inr origin \<Rightarrow>
     (case resultPtr of
        None \<Rightarrow> Inl NilDereference
      | Some result \<Rightarrow>
     (case (if needInit (Type result)
            then (case buildResponseResultInit x svc e v sd of
                    Inl err \<Rightarrow> Inl err
                  | Inr (init, sd') \<Rightarrow> Inr (Some init, sd'))
            else Inr (None, sd)) of
        Inl err \<Rightarrow> Inl err
      | Inr (init, sd1) \<Rightarrow>
     (case extractHeaders x (rx_Headers v) result False (Scope sd1) of
        Inl err \<Rightarrow> Inl err
      | Inr (headersData, scope2) \<Rightarrow>
     (case buildBodyType x svc e (rx_Body v) result False True viewed pkg
             (sd1\<lparr>Scope := scope2\<rparr>) of
        Inl err \<Rightarrow> Inl err
      | Inr (serverBodyData, sd3) \<Rightarrow>
     (case buildBodyType x svc e (rx_Body v) result False False viewed pkg sd3 of
        Inl err \<Rightarrow> Inl err
      | Inr (clientBodyData, sd4) \<Rightarrow>
          (let sd5 = (case clientBodyData of
                        None \<Rightarrow> sd4
                      | Some cbd \<Rightarrow>
                          sd4\<lparr>ServerTypeNames := insert (t_Name cbd) (ServerTypeNames sd4),
                              ClientTypeNames := insert (t_Name cbd) (ClientTypeNames sd4)\<rparr>)
           in Inr (\<lparr>rs_StatusCode = statusCodeToHTTPConst x (rx_StatusCode v),
                     rs_Description = rx_Description v, rs_Headers = headersData,
                     rs_ServerBody = serverBodyData, rs_ClientBody = clientBodyData,
                     rs_ResultInit = init, rs_TagName = Goify x (fst (rx_Tag v)) True,
                     rs_TagValue = snd (rx_Tag v),
                     rs_TagRequired = (IsRequired x result (fst (rx_Tag v)) \<and> \<not> viewed),
                     rs_MustValidate = headers_mustValidate headersData,
                     rs_ResultAttr = Goify x origin True, rs_ViewedResult = viewed\<rparr>,
                   sd5))))))))"

text \<open>
  The loop of \<open>buildResultData\<close> over the response definitions, for any loop body:
  \<open>i\<close> is the index in the definitions, \<open>notag\<close> the index of the first definition
  without tag (\<open>-1\<close> before there is one); a later definition without tag is skipped by
  \<open>continue\<close>. A panic of the body ends the loop.
\<close>

fun buildResultData_loop ::
    "(HTTPResponseExpr \<Rightarrow> 'st \<Rightarrow> error + ('r \<times> 'st)) \<Rightarrow> HTTPResponseExpr list \<Rightarrow> int \<Rightarrow> int
      \<Rightarrow> 'r list \<Rightarrow> 'st \<Rightarrow> error + ('r list \<times> int \<times> 'st)" where
  "buildResultData_loop body [] i notag responses st = Inr (responses, notag, st)"
| "buildResultData_loop body (v # vs) i notag responses st =
     (if fst (rx_Tag v) = [] \<and> notag > -1
      then buildResultData_loop body vs (i + 1) notag responses st
      else
        (let notag = (if fst (rx_Tag v) = [] then i else notag)
         in case body v st of
              Inl err \<Rightarrow> Inl err
            | Inr (responseData, st') \<Rightarrow>
                buildResultData_loop body vs (i + 1) notag (responses @ [responseData]) st'))"

text \<open>
  The loop followed by the exchange that puts the response without tag last:
  \<open>responses[notag], responses[count-1] = responses[count-1], responses[notag]\<close>.
\<close>

definition buildResultData_responses ::
    "(HTTPResponseExpr \<Rightarrow> 'st \<Rightarrow> error + ('r \<times> 'st)) \<Rightarrow> HTTPResponseExpr list \<Rightarrow> 'st
      \<Rightarrow> error + ('r list \<times> 'st)" where
  "buildResultData_responses body vs st =
     (case buildResultData_loop body vs 0 (-1) [] st of
        Inl err \<Rightarrow> Inl err
      | Inr (responses, notag, st') \<Rightarrow>
          (let count = int (length responses)
           in Inr (if notag \<ge> 0 \<and> notag < count - 1
                   then responses[nat notag := responses ! nat (count - 1),
                                  nat (count - 1) := responses ! nat notag]
                   else responses,
                   st')))"

text \<open>\<open>buildResultData\<close> (service_data.go).\<close>

definition buildResultData ::
    "('s, 'h) Ext \<Rightarrow> ServiceInfo \<Rightarrow> EndpointExpr \<Rightarrow> ('s, 'h) GenState
      \<Rightarrow> error + (ResultData \<times> ('s, 'h) GenState)" where
  "buildResultData x svc e sd =
     (let result0 = me_Result (e_MethodExpr e)
      in case (case Metadata result0 ''view'' of
                 None \<Rightarrow> Inr ''default''
               | Some [] \<Rightarrow> Inl IndexOutOfRange
               | Some (view # _) \<Rightarrow> Inr view) of
           Inl err \<Rightarrow> Inl err
         | Inr view \<Rightarrow>
             (let name = (if Type result0 \<noteq> Empty
                          then GoFullTypeName x (Scope sd) result0 (sv_PkgName svc) else []);
                  ref = (if Type result0 \<noteq> Empty
                         then GoFullTypeRef x (Scope sd) result0 (sv_PkgName svc) else [])
              in case resultAttribute x svc e of
                   Inl err \<Rightarrow> Inl err
                 | Inr (ep, resultPtr, pkg, viewed) \<Rightarrow>
                     (case buildResultData_responses
                             (buildResultData_response x svc e resultPtr viewed pkg)
                             (e_Responses e) sd of
                        Inl err \<Rightarrow> Inl err
                      | Inr (responses, sd') \<Rightarrow>
                          (case resultPtr of
                             None \<Rightarrow> Inl NilDereference
                           | Some result \<Rightarrow>
                               Inr (\<lparr>rd_Name = name, rd_Ref = ref,
                                      rd_IsStruct = IsObject x (Type result),
                                      rd_Responses = responses, rd_View = view\<rparr>,
                                    sd')))))"

section \<open>Path constructors\<close>

text \<open>
  The block of \<open>analyze\<close> (service_data.go) that builds the arguments of the path
  constructor of one route: one argument for each wildcard of the route. The attribute
  of the wildcard is looked up in the object of the path parameters and dereferenced
  when its validation is read.
\<close>

fun analyze_initArgs ::
    "('s, 'h) Ext \<Rightarrow> EndpointExpr \<Rightarrow> (string \<times> AttributeExpr) list option \<Rightarrow> string list \<Rightarrow> 's
      \<Rightarrow> error + (InitArgData list \<times> 's)" where
  "analyze_initArgs x a pathParamsObj [] scope = Inr ([], scope)"
| "analyze_initArgs x a pathParamsObj (arg # params) scope =
     (case Object_Attribute x pathParamsObj arg of
        Inl err \<Rightarrow> Inl err
      | Inr attPtr \<Rightarrow>
          (let (name, scope1) = Unique x scope (Goify x arg False);
               pointer = IsPrimitivePointer x (ma_Attribute (e_Params a)) arg False
           in case attPtr of
                None \<Rightarrow> Inl NilDereference
              | Some att \<Rightarrow>
                  (let vcode = (if Validation att \<noteq> None
                                then RecursiveValidationCode x att True False False name
                                else [])
                   in case analyze_initArgs x a pathParamsObj params scope1 of
                        Inl err \<Rightarrow> Inl err
                      | Inr (initArgs, scope2) \<Rightarrow>
                          Inr (InitArgData0\<lparr>a_Name := name, a_Description := Description att,
                                 a_Ref := name, a_FieldName := Goify x arg True,
                                 a_TypeName := GoTypeName x scope1 att,
                                 a_TypeRef := GoTypeRef x scope1 att, a_Pointer := pointer,
                                 a_Required := True, a_Validate := vcode\<rparr> # initArgs,
                               scope2))))"

text \<open>
  The Go code that the template \<open>pathInitT\<close> can render, as syntax: the conversion
  of one element \<open>v\<close> of a slice (the template \<open>slice_conversion\<close>), the loop that
  fills \<open>NAMESlice\<close> from the slice \<open>NAME\<close>, the arguments of \<open>fmt.Sprintf\<close>, and
  the two forms of the body.
\<close>

datatype SliceConversion =
    QueryEscape_v
  | FormatInt_int64_v
  | FormatInt_v
  | FormatUint_uint64_v
  | FormatUint_v
  | FormatFloat_float64_v_32
  | FormatFloat_v_64
  | FormatBool_v
  | QueryEscape_string_v
  | QueryEscape_Sprintf_v

datatype PathInitStmt = FillSlice string SliceConversion

datatype PathInitArg = JoinSlice string | Plain string

datatype PathInitCode =
    ReturnSprintf "PathInitStmt list" string "PathInitArg list"
  | ReturnString string

text \<open>The template \<open>slice_conversion\<close>, applied to the name of the element type.\<close>

definition slice_conversion :: "string \<Rightarrow> SliceConversion" where
  "slice_conversion n =
     (if n = ''string'' then QueryEscape_v
      else if n = ''int'' \<or> n = ''int32'' then FormatInt_int64_v
      else if n = ''int64'' then FormatInt_v
      else if n = ''uint'' \<or> n = ''uint32'' then FormatUint_uint64_v
      else if n = ''uint64'' then FormatUint_v
      else if n = ''float32'' then FormatFloat_float64_v_32
      else if n = ''float64'' then FormatFloat_v_64
      else if n = ''boolean'' then FormatBool_v
      else if n = ''bytes'' then QueryEscape_string_v
      else QueryEscape_Sprintf_v)"

text \<open>
  The template \<open>pathInitT\<close>, executed on \<open>Args\<close>, \<open>PathParams\<close> and
  \<open>PathFormat\<close>. The type of the argument at position \<open>i\<close> is that of the
  attribute at position \<open>i\<close> of the path parameters object
  (\<open>index $.PathParams $i\<close>). The execution fails, and \<open>analyze\<close> panics, when
  the object is \<open>nil\<close> or shorter than the arguments, or when a type named
  \<open>array\<close> has no element type.
\<close>

fun pathInitT_range ::
    "('s, 'h) Ext \<Rightarrow> (string \<times> AttributeExpr) list \<Rightarrow> nat \<Rightarrow> InitArgData list
      \<Rightarrow> error + (PathInitStmt list \<times> PathInitArg list)" where
  "pathInitT_range x pathParams i [] = Inr ([], [])"
| "pathInitT_range x pathParams i (arg # args) =
     (if i < length pathParams then
        (let typ = Type (snd (pathParams ! i))
         in case (if Name x typ = ''array''
                  then (case typ of
                          Array el \<Rightarrow>
                            Inr ([FillSlice (a_Name arg) (slice_conversion (Name x (Type el)))],
                                 JoinSlice (a_Name arg))
                        | _ \<Rightarrow> Inl TemplateError)
                  else Inr ([], Plain (a_Name arg))) of
              Inl err \<Rightarrow> Inl err
            | Inr (stmts, sarg) \<Rightarrow>
                (case pathInitT_range x pathParams (Suc i) args of
                   Inl err \<Rightarrow> Inl err
                 | Inr (stmts', sargs) \<Rightarrow> Inr (stmts @ stmts', sarg # sargs)))
      else Inl TemplateError)"

definition pathInitT ::
    "('s, 'h) Ext \<Rightarrow> InitArgData list \<Rightarrow> (string \<times> AttributeExpr) list option \<Rightarrow> string
      \<Rightarrow> error + PathInitCode" where
  "pathInitT x Args PathParams PathFormat =
     (if Args \<noteq> [] then
        (case PathParams of
           None \<Rightarrow> Inl TemplateError
         | Some pathParams \<Rightarrow>
             (case pathInitT_range x pathParams 0 Args of
                Inl err \<Rightarrow> Inl err
              | Inr (stmts, sargs) \<Rightarrow> Inr (ReturnSprintf stmts PathFormat sargs)))
      else Inr (ReturnString PathFormat))"

text \<open>
  The path constructor of one route, as \<open>analyze\<close> builds it: \<open>params\<close> are the
  wildcards of the route path (\<open>ExtractRouteWildcards\<close>) and \<open>pf\<close> is the path with
  each wildcard replaced by \<open>/%v\<close>; \<open>name\<close> is the name of the constructor.
\<close>

definition analyze_pathInit ::
    "('s, 'h) Ext \<Rightarrow> ServiceInfo \<Rightarrow> EndpointExpr \<Rightarrow> string \<Rightarrow> string \<Rightarrow> string list \<Rightarrow> string
      \<Rightarrow> 's \<Rightarrow> error + ((InitData \<times> PathInitCode) \<times> 's)" where
  "analyze_pathInit x svc a epName name params pf scope =
     (let pathParamsObj = AsObject x (Type (ma_Attribute (e_PathParams a)))
      in case analyze_initArgs x a pathParamsObj params scope of
           Inl err \<Rightarrow> Inl err
         | Inr (initArgs, scope') \<Rightarrow>
             (case pathInitT x initArgs pathParamsObj pf of
                Inl err \<Rightarrow> Inl err
              | Inr code \<Rightarrow>
                  Inr ((InitData0\<lparr>i_Name := name,
                          i_Description := Sprintf x
                            ''%s returns the URL path to the %s service %s HTTP endpoint. ''
                            [name, sv_Name svc, epName],
                          i_ServerArgs := initArgs, i_ClientArgs := initArgs,
                          i_ReturnTypeName := ''string'', i_ReturnTypeRef := ''string''\<rparr>,
                        code),
                       scope')))"

section \<open>Running a path constructor\<close>



















section \<open>Sample inputs\<close>

text \<open>
  An instance of the external functions and a small service, to evaluate the
  definitions on concrete inputs. User types are resolved in a registry; names are
  left as they are; the validation code of an attribute is empty unless the attribute
  has validation rules; no transform fails; the walk of a mapped attribute visits the
  attributes of its object, required where the validation of the mapped attribute lists
  them.
\<close>

definition sampleExt :: "Registry \<Rightarrow> (nat, string) Ext" where
  "sampleExt reg =
     \<lparr>Goify = (\<lambda>s b. s),
      Unique = (\<lambda>sc n. (n, Suc sc)),
      HashedUnique = (\<lambda>sc dt n. (n, Suc sc)),
      GoTypeName = (\<lambda>sc a. ''T''),
      GoTypeRef = (\<lambda>sc a. ''*T''),
      GoFullTypeName = (\<lambda>sc a pkg. pkg @ ''.T''),
      GoFullTypeRef = (\<lambda>sc a pkg. ''*'' @ pkg @ ''.T''),
      RecursiveValidationCode = (\<lambda>a req ptr def target.
        case Validation a of
          None \<Rightarrow> []
        | Some v \<Rightarrow> if v_Rules v = [] then [] else ''validate''),
      TransformError = (\<lambda>src tgt sv tv. None),
      TransformPlan = (\<lambda>src tgt sv tv sp tp unmarshal sc. (''code'', [])),
      AppendHelpers = (\<lambda>hs gs. hs @ gs),
      WalkMappedAttr = (\<lambda>ma.
        case Type (ma_Attribute ma) of
          Object nats \<Rightarrow>
            map (\<lambda>na. (fst na, fst na,
                   (case Validation (ma_Attribute ma) of
                      None \<Rightarrow> False
                    | Some v \<Rightarrow> fst na \<in> set (v_Required v)),
                   snd na)) nats
        | _ \<Rightarrow> []),
      ElemName = (\<lambda>ma n. n),
      AsObject = (\<lambda>dt.
        case dt of
          Object nats \<Rightarrow> Some nats
        | UserType u \<Rightarrow>
            (case map_of reg u of
               None \<Rightarrow> None
             | Some a \<Rightarrow> (case Type a of Object nats \<Rightarrow> Some nats | _ \<Rightarrow> None))
        | _ \<Rightarrow> None),
      Attribute = (\<lambda>nats name. map_of nats name),
      AsArray = (\<lambda>dt. case dt of Array el \<Rightarrow> Some el | _ \<Rightarrow> None),
      AsMap = (\<lambda>dt. case dt of Map kt et \<Rightarrow> Some (kt, et) | _ \<Rightarrow> None),
      IsObject = (\<lambda>dt.
        case dt of
          Object nats \<Rightarrow> True
        | UserType u \<Rightarrow>
            (case map_of reg u of
               None \<Rightarrow> False
             | Some a \<Rightarrow> (case Type a of Object nats \<Rightarrow> True | _ \<Rightarrow> False))
        | _ \<Rightarrow> False),
      IsArray = (\<lambda>dt. case dt of Array el \<Rightarrow> True | _ \<Rightarrow> False),
      IsMap = (\<lambda>dt. case dt of Map kt et \<Rightarrow> True | _ \<Rightarrow> False),
      Kind = (\<lambda>dt.
        case dt of
          Primitive k \<Rightarrow> k
        | Array el \<Rightarrow> ArrayKind
        | Map kt et \<Rightarrow> MapKind
        | Object nats \<Rightarrow> ObjectKind
        | _ \<Rightarrow> UserTypeKind),
      Name = (\<lambda>dt.
        case dt of
          UserType u \<Rightarrow> u
        | Array el \<Rightarrow> ''array''
        | Map kt et \<Rightarrow> ''map''
        | Object nats \<Rightarrow> ''object''
        | Primitive k \<Rightarrow>
            (if k = StringKind then ''string'' else if k = IntKind then ''int''
             else if k = BooleanKind then ''boolean'' else ''any'')
        | Empty \<Rightarrow> ''Empty''),
      UserTypeAttribute = (\<lambda>u.
        case map_of reg u of
          Some a \<Rightarrow> a
        | None \<Rightarrow> AttributeExpr (Object []) [] None None Map.empty),
      IsRequired = (\<lambda>a n.
        case Validation a of None \<Rightarrow> False | Some v \<Rightarrow> n \<in> set (v_Required v)),
      IsPrimitivePointer = (\<lambda>a n useDefault. False),
      Find = (\<lambda>a n. case Type a of Object nats \<Rightarrow> map_of nats n | _ \<Rightarrow> None),
      Method = (\<lambda>svc name. find (\<lambda>m. md_Name m = name) (sv_Methods svc)),
      CanonicalHeaderKey = (\<lambda>s. s),
      StatusText = (\<lambda>c. ''OK''),
      statusCodeToHTTPConst = (\<lambda>c. ''http.StatusOK''),
      Sprintf = (\<lambda>f args. concat (f # args))\<rparr>"

definition sampleAttr :: "DataType \<Rightarrow> AttributeExpr" where
  "sampleAttr dt = AttributeExpr dt [] None None Map.empty"

definition sampleRequired :: "DataType \<Rightarrow> string list \<Rightarrow> AttributeExpr" where
  "sampleRequired dt names =
     AttributeExpr dt [] (Some \<lparr>v_Required = names, v_Rules = []\<rparr>) None Map.empty"

definition sampleMapped :: "AttributeExpr \<Rightarrow> MappedAttributeExpr" where
  "sampleMapped a = \<lparr>ma_Attribute = a, ma_nameMap = Map.empty\<rparr>"

definition sampleService :: ServiceInfo where
  "sampleService =
     \<lparr>sv_Name = ''svc'', sv_PkgName = ''pkg'', sv_ViewsPkg = ''views'', sv_StructName = ''Svc'',
      sv_Methods = [\<lparr>md_Name = ''m'', md_VarName = ''M'', md_Payload = ''P'',
                      md_Result = ''R'', md_Requirements = [], md_ViewedResult = None\<rparr>]\<rparr>"

definition sampleState :: "(nat, string) GenState" where
  "sampleState =
     \<lparr>Scope = 0, ServerTypeNames = {}, ClientTypeNames = {}, ServerTransformHelpers = [],
      ClientTransformHelpers = [], Stdout = []\<rparr>"

text \<open>
  An endpoint with the given payload and body, no parameter, no header and no
  response.
\<close>

definition sampleEndpoint :: "AttributeExpr \<Rightarrow> AttributeExpr \<Rightarrow> EndpointExpr" where
  "sampleEndpoint payload body =
     \<lparr>e_Name = ''m'',
      e_MethodExpr = \<lparr>me_Name = ''m'', me_Payload = payload, me_Result = sampleAttr Empty\<rparr>,
      e_Body = body,
      e_Params = sampleMapped (sampleAttr (Object [])),
      e_Headers = sampleMapped (sampleAttr (Object [])),
      e_MapQueryParams = None,
      e_PathParams = sampleMapped (sampleAttr (Object [])),
      e_QueryParams = sampleMapped (sampleAttr (Object [])),
      e_Responses = []\<rparr>"

text \<open>The definitions to unfold when evaluating on the sample inputs.\<close>

lemmas sample_defs = sampleExt_def sampleAttr_def sampleRequired_def sampleMapped_def
  sampleService_def sampleState_def sampleEndpoint_def

lemmas body_defs = buildBodyType_def buildBodyType_names_def buildBodyType_init_def
  originAttribute_def Object_Attribute_def goTypeDef_def fieldPointer_def
  GoTypeTransform_def InitData0_def InitArgData0_def

lemmas payload_defs = buildPayloadData_def buildPayloadData_request_def
  buildPayloadData_init_def buildPayloadData_transform_def transformBoth_def
  buildPayloadData_args_def buildPayloadData_mapQueryParam_def
  extractPathParams_def extractQueryParams_def extractHeaders_def HasPrefix_def
  ParamData0_def

text \<open>A response definition without body and headers, with the given tag.\<close>

definition sampleResponse :: "string \<Rightarrow> string \<Rightarrow> HTTPResponseExpr" where
  "sampleResponse tag val =
     \<lparr>rx_StatusCode = 200, rx_Description = val, rx_Body = sampleAttr Empty,
      rx_Headers = sampleMapped (sampleAttr (Object [])), rx_Tag = (tag, val)\<rparr>"

lemmas result_defs = buildResultData_def buildResultData_responses_def
  buildResultData_response_def resultAttribute_def buildResponseResultInit_def
  buildResponseResultInit_transform_def sampleResponse_def



section \<open>Auxiliary notions for the properties\<close>


text \<open>A response definition whose tag name is empty.\<close>

definition tagless :: "HTTPResponseExpr \<Rightarrow> bool" where
  "tagless v = (fst (rx_Tag v) = [])"

text \<open>
  The definitions the loop of \<open>buildResultData\<close> builds a response from, in order:
  all of them but the definitions without tag that come after one without tag
  (\<open>b\<close> tells that one was met).
\<close>

fun kept :: "HTTPResponseExpr list \<Rightarrow> bool \<Rightarrow> HTTPResponseExpr list" where
  "kept [] b = []"
| "kept (v # vs) b = (if tagless v \<and> b then kept vs b else v # kept vs (b \<or> tagless v))"

text \<open>
  The index of the first definition without tag, counting from \<open>i\<close>, or \<open>-1\<close>.
\<close>

fun first_tagless :: "HTTPResponseExpr list \<Rightarrow> int \<Rightarrow> int" where
  "first_tagless [] i = -1"
| "first_tagless (v # vs) i = (if tagless v then i else first_tagless vs (i + 1))"


text \<open>
  What one call does to the seen set it was given: with a map, the identities called
  back are distinct, none was in the map before, and the map afterwards holds exactly
  the old identities and those called back.
\<close>

fun seen_once :: "string set option \<Rightarrow> string list \<Rightarrow> string set option \<Rightarrow> bool" where
  "seen_once None cbs r = (r = None)"
| "seen_once (Some s) cbs r = (r = Some (s \<union> set cbs) \<and> distinct cbs \<and> set cbs \<inter> s = {})"

lemma seen_once_append:
  "seen_once seen c1 s1 \<Longrightarrow> seen_once s1 c2 s2 \<Longrightarrow> seen_once seen (c1 @ c2) s2"
  by (cases seen) auto

lemma collect_seen_once:
  "collectUserTypes reg dt seen = (cbs, r) \<Longrightarrow> seen_once seen cbs r"
  "collectUserTypes_fields reg nats seen = (cbs, r) \<Longrightarrow> seen_once seen cbs r"
proof (induction reg dt seen and reg nats seen arbitrary: cbs r and cbs r
    rule: collectUserTypes_collectUserTypes_fields.induct)
  case (1 reg seen)
  then show ?case by (cases seen) auto
next
  case (2 reg k seen)
  then show ?case by (cases seen) auto
next
  case (3 reg nats seen)
  then show ?case by simp
next
  case (4 reg e seen)
  then show ?case by simp
next
  case (5 reg k e seen)
  obtain c1 s1 where r1: "collectUserTypes reg (Type k) seen = (c1, s1)" by fastforce
  obtain c2 s2 where r2: "collectUserTypes reg (Type e) s1 = (c2, s2)" by fastforce
  have "seen_once seen c1 s1" using 5(1) r1 by simp
  moreover have "seen_once s1 c2 s2" using 5(2) [of c1 s1] r1 r2 by simp
  ultimately show ?case using 5(3) r1 r2 by (auto intro: seen_once_append)
next
  case (6 reg u seen)
  let ?s = "case seen of None \<Rightarrow> {} | Some m \<Rightarrow> m"
  show ?case
  proof (cases "u \<in> ?s")
    case True
    then show ?thesis using 6(2) by (cases seen) auto
  next
    case False
    show ?thesis
    proof (cases "map_of reg u")
      case None
      then show ?thesis using 6(2) False by (cases seen) auto
    next
      case (Some a)
      obtain c s2 where rr: "collectUserTypes reg (Type a) (Some (insert u ?s)) = (c, s2)"
        by fastforce
      have "seen_once (Some (insert u ?s)) c s2" using 6(1) [OF refl False refl Some rr] .
      then show ?thesis using 6(2) False Some rr by (cases seen) auto
    qed
  qed
next
  case (7 reg seen)
  then show ?case by (cases seen) auto
next
  case (8 reg na nats seen)
  obtain c1 s1 where r1: "collectUserTypes reg (Type (snd na)) seen = (c1, s1)" by fastforce
  obtain c2 s2 where r2: "collectUserTypes_fields reg nats s1 = (c2, s2)" by fastforce
  have "seen_once seen c1 s1" using 8(1) r1 by simp
  moreover have "seen_once s1 c2 s2" using 8(2) [of c1 s1] r1 r2 by simp
  ultimately show ?case using 8(3) r1 r2 by (auto intro: seen_once_append)
qed


section \<open>Properties of needInit and needConversion\<close>

lemma needInit_nodes:
  "needInit dt = (\<exists>u. UserType u \<in> nodes dt)"
  "needInit_fields nats = (\<exists>u. UserType u \<in> nodes_fields nats)"
  by (induction dt and nats rule: needInit_needInit_fields.induct) auto

text \<open>
  C3: \<open>needInit dt\<close> is true if and only if \<open>dt\<close> is not \<open>Empty\<close> and its type
  closure contains at least one user type node; it is false for \<open>Empty\<close> and for every
  primitive, follows array elements, map keys and elements and all object fields, and
  is true for every user type.
\<close>

theorem needInit_iff_user_type:
  "(needInit dt = (dt \<noteq> Empty \<and> (\<exists>u. UserType u \<in> nodes dt)))
   \<and> needInit Empty = False
   \<and> needInit (Primitive k) = False
   \<and> needInit (Array e) = needInit (Type e)
   \<and> needInit (Map ka e) = (needInit (Type ka) \<or> needInit (Type e))
   \<and> needInit (Object nats) = (\<exists>u. UserType u \<in> nodes_fields nats)
   \<and> needInit (UserType u') = True"
  using needInit_nodes(1) [of dt] needInit_nodes(2) [of nats] by (cases dt) auto

theorem needInit_iff_user_type_witness:
  "needInit (Object [(''a'', AttributeExpr (Primitive IntKind) [] None None Map.empty),
      (''b'', AttributeExpr (Array (AttributeExpr (UserType ''T'') [] None None Map.empty))
         [] None None Map.empty)]) = True
   \<and> needInit (Map (AttributeExpr (Primitive StringKind) [] None None Map.empty)
        (AttributeExpr Empty [] None None Map.empty)) = False"
  using needInit_iff_user_type
    [of "Object [(''a'', AttributeExpr (Primitive IntKind) [] None None Map.empty),
      (''b'', AttributeExpr (Array (AttributeExpr (UserType ''T'') [] None None Map.empty))
         [] None None Map.empty)]"]
    needInit_iff_user_type
    [of "Map (AttributeExpr (Primitive StringKind) [] None None Map.empty)
        (AttributeExpr Empty [] None None Map.empty)"]
  by simp

text \<open>
  C4: \<open>needConversion dt\<close> is false exactly for \<open>Empty\<close>, for the primitive kinds
  string, bytes and any, for arrays whose element type needs no conversion and for maps
  whose key and element types both need none; it is true for every other primitive
  kind and for every other data type.
\<close>

theorem needConversion_false_iff:
  "(needConversion dt = False) =
     (dt = Empty \<or> dt = Primitive StringKind \<or> dt = Primitive BytesKind
      \<or> dt = Primitive AnyKind
      \<or> (\<exists>e. dt = Array e \<and> needConversion (Type e) = False)
      \<or> (\<exists>k e. dt = Map k e \<and> needConversion (Type k) = False
            \<and> needConversion (Type e) = False))"
  by (cases dt) auto

theorem needConversion_false_iff_witness:
  "needConversion (Array (AttributeExpr (Primitive StringKind) [] None None Map.empty)) = False
   \<and> needConversion (Primitive Int64Kind) = True
   \<and> needConversion (UserType ''T'') = True"
  using needConversion_false_iff
    [of "Array (AttributeExpr (Primitive StringKind) [] None None Map.empty)"]
    needConversion_false_iff [of "Primitive Int64Kind"]
    needConversion_false_iff [of "UserType ''T''"]
  by simp


section \<open>Properties of collectUserTypes\<close>

text \<open>
  C9: \<open>collectUserTypes\<close> terminates on every type graph, cyclic ones included: it is
  a total function, defined by recursion on the number of registered identities not yet
  seen and then on the size of the type. A user type is recorded in the seen set
  before its attribute is traversed, so the traversal of its attribute never calls back
  for it again; with a seen set, each identity is called back at most once and never
  when it was already recorded, and a traversal started at a user type without a seen
  set calls back each identity at most once.
\<close>

theorem collectUserTypes_once:
  "(snd (collectUserTypes reg dt (Some s)) = Some (s \<union> set (fst (collectUserTypes reg dt (Some s))))
    \<and> distinct (fst (collectUserTypes reg dt (Some s)))
    \<and> set (fst (collectUserTypes reg dt (Some s))) \<inter> s = {})
   \<and> (distinct (fst (collectUserTypes reg (UserType u) None))
    \<and> hd (fst (collectUserTypes reg (UserType u) None)) = u
    \<and> snd (collectUserTypes reg (UserType u) None) = None)
   \<and> (u \<notin> s \<and> map_of reg u = Some a \<longrightarrow>
        collectUserTypes reg (UserType u) (Some s) =
          (u # fst (collectUserTypes reg (Type a) (Some (insert u s))),
           snd (collectUserTypes reg (Type a) (Some (insert u s))))
        \<and> u \<notin> set (fst (collectUserTypes reg (Type a) (Some (insert u s)))))"
proof -
  have A: "seen_once (Some s) (fst (collectUserTypes reg dt (Some s)))
      (snd (collectUserTypes reg dt (Some s)))"
    by (rule collect_seen_once(1)) simp
  have B: "seen_once (Some (insert u s)) (fst (collectUserTypes reg (Type a) (Some (insert u s))))
      (snd (collectUserTypes reg (Type a) (Some (insert u s))))" for a s
    by (rule collect_seen_once(1)) simp
  have C: "distinct (fst (collectUserTypes reg (UserType u) None))
    \<and> hd (fst (collectUserTypes reg (UserType u) None)) = u
    \<and> snd (collectUserTypes reg (UserType u) None) = None"
  proof (cases "map_of reg u")
    case None
    then show ?thesis by simp
  next
    case (Some a)
    obtain c r where rr: "collectUserTypes reg (Type a) (Some {u}) = (c, r)" by fastforce
    have "seen_once (Some {u}) c r" using B [where a = a and s = "{}"] rr by simp
    then show ?thesis using Some rr by simp
  qed
  have D: "u \<notin> s \<and> map_of reg u = Some a \<longrightarrow>
        collectUserTypes reg (UserType u) (Some s) =
          (u # fst (collectUserTypes reg (Type a) (Some (insert u s))),
           snd (collectUserTypes reg (Type a) (Some (insert u s))))
        \<and> u \<notin> set (fst (collectUserTypes reg (Type a) (Some (insert u s))))"
  proof (intro impI, elim conjE)
    assume u: "u \<notin> s" and m: "map_of reg u = Some a"
    obtain c r where rr: "collectUserTypes reg (Type a) (Some (insert u s)) = (c, r)"
      by fastforce
    have "seen_once (Some (insert u s)) c r" using B [where a = a and s = s] rr by simp
    then show "collectUserTypes reg (UserType u) (Some s) =
          (u # fst (collectUserTypes reg (Type a) (Some (insert u s))),
           snd (collectUserTypes reg (Type a) (Some (insert u s))))
        \<and> u \<notin> set (fst (collectUserTypes reg (Type a) (Some (insert u s))))"
      using u m rr by simp
  qed
  show ?thesis using A C D by simp
qed

theorem collectUserTypes_once_witness:
  "collectUserTypes
     [(''Node'', AttributeExpr (Object [(''next'', AttributeExpr (UserType ''Node'') [] None None Map.empty)]) [] None None Map.empty)]
     (UserType ''Node'') (Some {}) = ([''Node''], Some {''Node''})
   \<and> collectUserTypes
     [(''Node'', AttributeExpr (Object [(''next'', AttributeExpr (UserType ''Node'') [] None None Map.empty)]) [] None None Map.empty)]
     (UserType ''Node'') None = ([''Node''], None)"
  using collectUserTypes_once
    [where reg = "[(''Node'', AttributeExpr (Object [(''next'', AttributeExpr (UserType ''Node'') [] None None Map.empty)]) [] None None Map.empty)]"
       and dt = "UserType ''Node''" and s = "{}" and u = "''Node''"
       and a = "AttributeExpr (Object [(''next'', AttributeExpr (UserType ''Node'') [] None None Map.empty)]) [] None None Map.empty"]
  by simp


section \<open>Properties of buildBodyType\<close>







section \<open>Properties of the wire types\<close>






section \<open>Properties of the request data\<close>

lemma pathParams_mustValidate_iff:
  "pathParams_mustValidate ps = (\<exists>p \<in> set ps. p_Validate p \<noteq> [] \<or> needConversion (p_Type p))"
  by (induction ps) auto

lemma queryParams_mustValidate_iff:
  "queryParams_mustValidate qs =
     (\<exists>q \<in> set qs. p_Validate q \<noteq> [] \<or> p_Required q \<or> needConversion (p_Type q))"
  by (induction qs) auto

lemma headers_mustValidate_iff:
  "headers_mustValidate hs =
     (\<exists>h \<in> set hs. h_Validate h \<noteq> [] \<or> h_Required h \<or> needConversion (h_Type h))"
  by (induction hs) auto

lemma buildPayloadData_request_mustValidate:
  assumes "buildPayloadData_request x svc e sd = Inr (request, mq, sd')"
  shows "r_MustValidate request =
     (pathParams_mustValidate (r_PathParams request)
      \<or> queryParams_mustValidate (r_QueryParams request)
      \<or> headers_mustValidate (r_Headers request))"
  using assms unfolding buildPayloadData_request_def
  by (auto simp: Let_def split: sum.splits prod.splits option.splits if_splits)

lemma buildPayloadData_request_of:
  assumes "buildPayloadData x svc e sd = Inr (pd, sd')"
  shows "\<exists>request mq sd1. buildPayloadData_request x svc e sd = Inr (request, mq, sd1)
     \<and> pd_Request pd = request\<lparr>r_PayloadInit := r_PayloadInit (pd_Request pd)\<rparr>"
  using assms unfolding buildPayloadData_def
  by (auto simp: Let_def split: sum.splits prod.splits)

lemma buildPayloadData_mustValidate_iff:
  assumes "buildPayloadData x svc e sd = Inr (pd, sd')"
  shows "r_MustValidate (pd_Request pd) =
     ((\<exists>p \<in> set (r_PathParams (pd_Request pd)).
          p_Validate p \<noteq> [] \<or> needConversion (p_Type p))
      \<or> (\<exists>q \<in> set (r_QueryParams (pd_Request pd)).
          p_Validate q \<noteq> [] \<or> p_Required q \<or> needConversion (p_Type q))
      \<or> (\<exists>h \<in> set (r_Headers (pd_Request pd)).
          h_Validate h \<noteq> [] \<or> h_Required h \<or> needConversion (h_Type h)))"
proof -
  obtain request mq sd1 where r: "buildPayloadData_request x svc e sd = Inr (request, mq, sd1)"
    and p: "pd_Request pd = request\<lparr>r_PayloadInit := r_PayloadInit (pd_Request pd)\<rparr>"
    using buildPayloadData_request_of [OF assms] by blast
  have "r_MustValidate (pd_Request pd) = r_MustValidate request"
    and "r_PathParams (pd_Request pd) = r_PathParams request"
    and "r_QueryParams (pd_Request pd) = r_QueryParams request"
    and "r_Headers (pd_Request pd) = r_Headers request"
    by (subst p, simp)+
  then show ?thesis
    using buildPayloadData_request_mustValidate [OF r]
    by (simp add: pathParams_mustValidate_iff queryParams_mustValidate_iff
        headers_mustValidate_iff)
qed

text \<open>
  C5, as amended: the request data of an endpoint has \<open>MustValidate\<close> set whenever
  a path parameter has validation code or needs conversion from its string form, or a
  query parameter or a header has validation code, is required or needs conversion.
  For an endpoint without request body, \<open>MustValidate\<close> is false when there is no
  such parameter or header; a path parameter that is only required does not set it.
\<close>

theorem buildPayloadData_mustValidate:
  assumes "buildPayloadData x svc e sd = Inr (pd, sd')"
  shows "(((\<exists>p \<in> set (r_PathParams (pd_Request pd)).
            p_Validate p \<noteq> [] \<or> needConversion (p_Type p))
        \<or> (\<exists>q \<in> set (r_QueryParams (pd_Request pd)).
            p_Validate q \<noteq> [] \<or> p_Required q \<or> needConversion (p_Type q))
        \<or> (\<exists>h \<in> set (r_Headers (pd_Request pd)).
            h_Validate h \<noteq> [] \<or> h_Required h \<or> needConversion (h_Type h)))
       \<longrightarrow> r_MustValidate (pd_Request pd) = True)
    \<and> (Type (e_Body e) = Empty
        \<and> (\<forall>p \<in> set (r_PathParams (pd_Request pd)).
            p_Validate p = [] \<and> \<not> needConversion (p_Type p))
        \<and> (\<forall>q \<in> set (r_QueryParams (pd_Request pd)).
            p_Validate q = [] \<and> \<not> p_Required q \<and> \<not> needConversion (p_Type q))
        \<and> (\<forall>h \<in> set (r_Headers (pd_Request pd)).
            h_Validate h = [] \<and> \<not> h_Required h \<and> \<not> needConversion (h_Type h))
       \<longrightarrow> r_MustValidate (pd_Request pd) = False)"
  using buildPayloadData_mustValidate_iff [OF assms] by blast

text \<open>
  C5 as stated fails: with one path parameter that is required, of type string and
  without validation, and nothing else to decode, \<open>MustValidate\<close> is false.
\<close>

theorem buildPayloadData_mustValidate_counterexample:
  "map_sum id (\<lambda>r. (map p_Required (r_PathParams (pd_Request (fst r))),
                     r_MustValidate (pd_Request (fst r))))
     (buildPayloadData (sampleExt []) sampleService
        ((sampleEndpoint
            (sampleRequired (Object [(''id'', sampleAttr (Primitive StringKind))]) [''id''])
            (sampleAttr Empty))
         \<lparr>e_PathParams := sampleMapped
            (sampleRequired (Object [(''id'', sampleAttr (Primitive StringKind))]) [''id''])\<rparr>)
        sampleState)
   = Inr ([True], False)"
  by (simp add: sample_defs body_defs payload_defs)

theorem buildPayloadData_mustValidate_witness:
  "map_sum id (\<lambda>r. (map p_Type (r_PathParams (pd_Request (fst r))),
                     r_MustValidate (pd_Request (fst r))))
     (buildPayloadData (sampleExt []) sampleService
        ((sampleEndpoint
            (sampleRequired (Object [(''id'', sampleAttr (Primitive IntKind))]) [''id''])
            (sampleAttr Empty))
         \<lparr>e_PathParams := sampleMapped
            (sampleRequired (Object [(''id'', sampleAttr (Primitive IntKind))]) [''id''])\<rparr>)
        sampleState)
   = Inr ([Primitive IntKind], True)"
proof -
  let ?e = "(sampleEndpoint
            (sampleRequired (Object [(''id'', sampleAttr (Primitive IntKind))]) [''id''])
            (sampleAttr Empty))
         \<lparr>e_PathParams := sampleMapped
            (sampleRequired (Object [(''id'', sampleAttr (Primitive IntKind))]) [''id''])\<rparr>"
  let ?r = "buildPayloadData (sampleExt []) sampleService ?e sampleState"
  have "map_sum id (\<lambda>r. map p_Type (r_PathParams (pd_Request (fst r)))) ?r
      = Inr [Primitive IntKind]"
    by (simp add: sample_defs body_defs payload_defs)
  then obtain pd sd' where ev: "?r = Inr (pd, sd')"
    and ty: "map p_Type (r_PathParams (pd_Request pd)) = [Primitive IntKind]"
    by (cases ?r) auto
  have "\<exists>p \<in> set (r_PathParams (pd_Request pd)). needConversion (p_Type p)"
    using ty by (cases "r_PathParams (pd_Request pd)") auto
  then have "r_MustValidate (pd_Request pd) = True"
    using buildPayloadData_mustValidate [OF ev] by blast
  then show ?thesis using ty by (simp add: ev)
qed

section \<open>Properties of the path parameters\<close>

lemma extractPathParams_walk_props:
  "extractPathParams_walk x serviceType visits scope params = (ps, scope') \<Longrightarrow>
     (\<forall>p \<in> set params. p_Pointer p = False) \<Longrightarrow>
     (\<forall>p \<in> set ps. p_Pointer p = False)
     \<and> map p_AttributeName ps = map p_AttributeName params @ map fst visits
     \<and> map p_Required ps = map p_Required params @ map (\<lambda>v. fst (snd (snd v))) visits"
proof (induction visits arbitrary: scope params)
  case Nil
  then show ?case by simp
next
  case (Cons v visits)
  obtain name elem required c where v: "v = (name, elem, required, c)" by (cases v) auto
  show ?case using Cons.prems Cons.IH unfolding v
    by (auto simp: Let_def split: prod.splits)
qed

lemma analyze_initArgs_props:
  "analyze_initArgs x a obj params scope = Inr (args, scope') \<Longrightarrow>
     length args = length params \<and> (\<forall>arg \<in> set args. a_Required arg = True)"
proof (induction params arbitrary: scope args scope')
  case Nil
  then show ?case by simp
next
  case (Cons p params)
  then show ?case
    by (auto simp: Let_def InitArgData0_def split: sum.splits prod.splits option.splits)
qed

text \<open>
  C6: every path parameter binding is non-optional. \<open>extractPathParams\<close> returns
  one \<open>ParamData\<close> for each attribute the walk visits, required or not, and each
  has \<open>Pointer\<close> false; every argument of a path constructor built by \<open>analyze\<close>,
  one for each wildcard of the route, has \<open>Required\<close> true.
\<close>

theorem path_params_never_optional:
  "(\<forall>p \<in> set (fst (extractPathParams x pathParams serviceType scope)). p_Pointer p = False)
   \<and> map p_AttributeName (fst (extractPathParams x pathParams serviceType scope))
       = map fst (WalkMappedAttr x pathParams)
   \<and> map p_Required (fst (extractPathParams x pathParams serviceType scope))
       = map (\<lambda>v. fst (snd (snd v))) (WalkMappedAttr x pathParams)
   \<and> (analyze_initArgs x a obj params scope = Inr (args, scope') \<longrightarrow>
        length args = length params \<and> (\<forall>arg \<in> set args. a_Required arg = True))"
proof -
  obtain ps sc where w:
    "extractPathParams_walk x serviceType (WalkMappedAttr x pathParams) scope [] = (ps, sc)"
    by fastforce
  show ?thesis
    using extractPathParams_walk_props [OF w] analyze_initArgs_props [of x a obj params scope args scope'] w
    by (simp add: extractPathParams_def)
qed

theorem path_params_never_optional_witness:
  "map p_Pointer (fst (extractPathParams (sampleExt [])
       (sampleMapped (sampleAttr (Object [(''id'', sampleAttr (Primitive IntKind))])))
       (sampleAttr (Object [(''id'', sampleAttr (Primitive IntKind))])) 0)) = [False]
   \<and> map p_Required (fst (extractPathParams (sampleExt [])
       (sampleMapped (sampleAttr (Object [(''id'', sampleAttr (Primitive IntKind))])))
       (sampleAttr (Object [(''id'', sampleAttr (Primitive IntKind))])) 0)) = [False]
   \<and> map_sum id (\<lambda>r. map a_Required (fst r))
       (analyze_initArgs (sampleExt [])
         (sampleEndpoint (sampleAttr (Object [(''id'', sampleAttr (Primitive IntKind))]))
            (sampleAttr Empty))
         (Some [(''id'', sampleAttr (Primitive IntKind))]) [''id''] 0) = Inr [True]"
  using path_params_never_optional
    [where x = "sampleExt []"
       and pathParams = "sampleMapped (sampleAttr (Object [(''id'', sampleAttr (Primitive IntKind))]))"
       and serviceType = "sampleAttr (Object [(''id'', sampleAttr (Primitive IntKind))])"
       and scope = 0
       and a = "sampleEndpoint (sampleAttr (Object [(''id'', sampleAttr (Primitive IntKind))]))
            (sampleAttr Empty)"
       and obj = "Some [(''id'', sampleAttr (Primitive IntKind))]" and params = "[''id'']"]
  by (simp add: sample_defs extractPathParams_def Object_Attribute_def InitArgData0_def)


section \<open>Properties of the responses\<close>

lemma loop_kept:
  "buildResultData_loop body vs i notag rs st = Inr (rs', notag', st') \<Longrightarrow> 0 \<le> i \<Longrightarrow>
     -1 \<le> notag \<Longrightarrow>
     (\<exists>rs2. rs' = rs @ rs2
       \<and> list_all2 (\<lambda>d r. \<exists>s1 s2. body d s1 = Inr (r, s2)) (kept vs (notag > -1)) rs2)
     \<and> notag' = (if notag > -1 then notag else first_tagless vs i)"
proof (induction vs arbitrary: i notag rs st)
  case Nil
  then show ?case by auto
next
  case (Cons v vs)
  show ?case
  proof (cases "fst (rx_Tag v) = [] \<and> notag > -1")
    case True
    then show ?thesis using Cons.prems Cons.IH [of "i + 1" notag rs st]
      by (simp add: tagless_def)
  next
    case False
    let ?n = "if fst (rx_Tag v) = [] then i else notag"
    obtain r st1 where b: "body v st = Inr (r, st1)"
      using Cons.prems False by (auto simp: Let_def split: sum.splits)
    have rec: "buildResultData_loop body vs (i + 1) ?n (rs @ [r]) st1 = Inr (rs', notag', st')"
      using Cons.prems False b by (auto simp: Let_def)
    have i1: "0 \<le> i + 1" using Cons.prems(2) by simp
    have n1: "-1 \<le> ?n" using Cons.prems(2,3) by simp
    obtain rs2 where r2: "rs' = (rs @ [r]) @ rs2"
      and l2: "list_all2 (\<lambda>d r. \<exists>s1 s2. body d s1 = Inr (r, s2)) (kept vs (?n > -1)) rs2"
      and n2: "notag' = (if ?n > -1 then ?n else first_tagless vs (i + 1))"
      using Cons.IH [OF rec i1 n1] by blast
    have k: "kept (v # vs) (notag > -1) = v # kept vs (?n > -1)"
      using False Cons.prems(2) by (auto simp: tagless_def)
    have "list_all2 (\<lambda>d r. \<exists>s1 s2. body d s1 = Inr (r, s2)) (kept (v # vs) (notag > -1)) (r # rs2)"
      unfolding k using l2 b by auto
    moreover have "rs' = rs @ (r # rs2)" using r2 by simp
    moreover have "notag' = (if notag > -1 then notag else first_tagless (v # vs) i)"
      using n2 False Cons.prems(2) by (auto simp: tagless_def)
    ultimately show ?thesis by blast
  qed
qed

lemma kept_True: "\<forall>d \<in> set (kept vs True). \<not> tagless d"
  by (induction vs) auto

lemma kept_subset: "set (kept vs b) \<subseteq> set vs"
  by (induction vs arbitrary: b) auto

lemma kept_False:
  "0 \<le> i \<Longrightarrow>
   (if first_tagless vs i = -1
    then kept vs False = vs \<and> (\<forall>d \<in> set vs. \<not> tagless d)
    else i \<le> first_tagless vs i \<and> nat (first_tagless vs i - i) < length (kept vs False)
       \<and> (\<forall>k < length (kept vs False).
             tagless (kept vs False ! k) = (k = nat (first_tagless vs i - i))))"
proof (induction vs arbitrary: i)
  case Nil
  then show ?case by simp
next
  case (Cons v vs)
  show ?case
  proof (cases "tagless v")
    case True
    have "\<forall>k < length (kept vs True). \<not> tagless (kept vs True ! k)"
      using kept_True by (metis nth_mem)
    then show ?thesis using True Cons.prems
      by (auto simp: nth_Cons split: nat.splits)
  next
    case False
    have i1: "0 \<le> i + 1" using Cons.prems by simp
    show ?thesis
    proof (cases "first_tagless vs (i + 1) = -1")
      case True
      then show ?thesis using False Cons.IH [OF i1] by auto
    next
      case f: False
      have ih: "i + 1 \<le> first_tagless vs (i + 1)"
        "nat (first_tagless vs (i + 1) - (i + 1)) < length (kept vs False)"
        "\<forall>k < length (kept vs False).
             tagless (kept vs False ! k) = (k = nat (first_tagless vs (i + 1) - (i + 1)))"
        using Cons.IH [OF i1] f by auto
      have e: "nat (first_tagless vs (i + 1) - i) = Suc (nat (first_tagless vs (i + 1) - (i + 1)))"
        using ih(1) by simp
      show ?thesis using False f ih unfolding e
        by (auto simp: nth_Cons split: nat.splits)
    qed
  qed
qed


lemma list_all2_swap:
  assumes "list_all2 P ds rs" and "n < length ds" and "m < length ds"
  shows "list_all2 P (ds[n := ds ! m, m := ds ! n]) (rs[n := rs ! m, m := rs ! n])"
  using assms by (auto simp: list_all2_conv_all_nth nth_list_update)

lemma responses_tagless_last:
  assumes "buildResultData_responses body vs st = Inr (rs, st')"
  shows "\<exists>ds. list_all2 (\<lambda>d r. \<exists>s1 s2. body d s1 = Inr (r, s2)) ds rs
     \<and> set ds \<subseteq> set vs
     \<and> (\<forall>k < length ds. tagless (ds ! k) \<longrightarrow> Suc k = length ds)
     \<and> ((\<exists>v \<in> set vs. tagless v) \<longrightarrow> (\<exists>d \<in> set ds. tagless d))"
proof -
  let ?P = "\<lambda>d r. \<exists>s1 s2. body d s1 = Inr (r, s2)"
  let ?K = "kept vs False"
  let ?p = "first_tagless vs 0"
  obtain rs0 notag where loop: "buildResultData_loop body vs 0 (-1) [] st = Inr (rs0, notag, st')"
    and rs: "rs = (if notag \<ge> 0 \<and> notag < int (length rs0) - 1
                   then rs0[nat notag := rs0 ! nat (int (length rs0) - 1),
                            nat (int (length rs0) - 1) := rs0 ! nat notag]
                   else rs0)"
    using assms unfolding buildResultData_responses_def
    by (auto simp: Let_def split: sum.splits)
  have all2: "list_all2 ?P ?K rs0" and notag: "notag = ?p"
    using loop_kept [OF loop] by auto
  have len: "length rs0 = length ?K" using all2 by (simp add: list_all2_lengthD)
  have sub: "set ?K \<subseteq> set vs" by (rule kept_subset)
  show ?thesis
  proof (cases "?p = -1")
    case True
    then have "\<forall>d \<in> set vs. \<not> tagless d" and "?K = vs" using kept_False [of 0 vs] by auto
    moreover have "rs = rs0" using rs notag True by simp
    ultimately show ?thesis using all2 by (intro exI [of _ ?K]) auto
  next
    case False
    then have p0: "0 \<le> ?p" and pl: "nat ?p < length ?K"
      and tg: "\<forall>k < length ?K. tagless (?K ! k) = (k = nat ?p)"
      using kept_False [of 0 vs] by auto
    show ?thesis
    proof (cases "?p < int (length rs0) - 1")
      case True
      let ?c = "length ?K - 1"
      let ?ds = "?K[nat ?p := ?K ! ?c, ?c := ?K ! nat ?p]"
      have c: "nat (int (length rs0) - 1) = ?c" using len by simp
      have cl: "?c < length ?K" using pl by simp
      have ne: "nat ?p \<noteq> ?c" using True p0 len by auto
      have r: "rs = rs0[nat ?p := rs0 ! ?c, ?c := rs0 ! nat ?p]"
        using rs notag True p0 c by simp
      have a: "list_all2 ?P ?ds rs" unfolding r by (rule list_all2_swap [OF all2 pl cl])
      have s: "set ?ds \<subseteq> set vs"
      proof -
        have "set ?ds \<subseteq> insert (?K ! nat ?p) (insert (?K ! ?c) (set ?K))"
          by (meson set_update_subset_insert subset_trans insert_mono)
        then show ?thesis using sub pl cl by (auto dest: nth_mem)
      qed
      have t: "\<forall>k < length ?ds. tagless (?ds ! k) \<longrightarrow> Suc k = length ?ds"
        using tg pl cl ne by (auto simp: nth_list_update)
      have "tagless (?ds ! ?c)" using tg pl cl by (simp add: nth_list_update)
      then have ex: "\<exists>d \<in> set ?ds. tagless d" using cl by (metis length_list_update nth_mem)
      show ?thesis using a s t ex by (intro exI [of _ ?ds]) blast
    next
      case f: False
      have r: "rs = rs0" using rs notag f by simp
      have e: "Suc (nat ?p) = length ?K" using f pl p0 len by auto
      have t: "\<forall>k < length ?K. tagless (?K ! k) \<longrightarrow> Suc k = length ?K" using tg e by auto
      have ex: "\<exists>d \<in> set ?K. tagless d" using tg pl by (metis nth_mem)
      show ?thesis using all2 sub t ex unfolding r by (intro exI [of _ ?K]) blast
    qed
  qed
qed

lemma filter_only_last:
  assumes "\<forall>k < length ds. P (ds ! k) \<longrightarrow> Suc k = length ds"
  shows "length (filter P ds) \<le> 1"
proof (cases ds rule: rev_cases)
  case Nil
  then show ?thesis by simp
next
  case (snoc xs y)
  have "\<not> P (xs ! k)" if "k < length xs" for k
    using assms [rule_format, of k] that unfolding snoc by (auto simp: nth_append)
  then have "filter P xs = []" by (auto simp: filter_empty_conv in_set_conv_nth)
  then show ?thesis unfolding snoc by simp
qed

text \<open>
  C10: the responses that \<open>buildResultData\<close> returns are built, position by
  position, from response definitions of the endpoint of which at most one has an
  empty tag name, and a definition with an empty tag name is at the last position.
  When the endpoint has a definition without tag, one of them is built.
\<close>

theorem buildResultData_tagless_last:
  assumes "buildResultData x svc e sd = Inr (rd, sd')"
  shows "\<exists>ds md resultPtr pkg viewed.
       resultAttribute x svc e = Inr (md, resultPtr, pkg, viewed)
     \<and> list_all2 (\<lambda>d r. \<exists>s1 s2. buildResultData_response x svc e resultPtr viewed pkg d s1
                                   = Inr (r, s2)) ds (rd_Responses rd)
     \<and> set ds \<subseteq> set (e_Responses e)
     \<and> (\<forall>k < length ds. fst (rx_Tag (ds ! k)) = [] \<longrightarrow> Suc k = length ds)
     \<and> length (filter (\<lambda>d. fst (rx_Tag d) = []) ds) \<le> 1
     \<and> ((\<exists>v \<in> set (e_Responses e). fst (rx_Tag v) = []) \<longrightarrow>
          (\<exists>d \<in> set ds. fst (rx_Tag d) = []))"
proof -
  obtain md resultPtr pkg viewed where ra: "resultAttribute x svc e = Inr (md, resultPtr, pkg, viewed)"
    and rs: "buildResultData_responses (buildResultData_response x svc e resultPtr viewed pkg)
               (e_Responses e) sd = Inr (rd_Responses rd, sd')"
    using assms unfolding buildResultData_def
    by (auto simp: Let_def split: sum.splits option.splits list.splits)
  obtain ds where a: "list_all2 (\<lambda>d r. \<exists>s1 s2. buildResultData_response x svc e resultPtr viewed pkg d s1
                                   = Inr (r, s2)) ds (rd_Responses rd)"
    and s: "set ds \<subseteq> set (e_Responses e)"
    and t: "\<forall>k < length ds. tagless (ds ! k) \<longrightarrow> Suc k = length ds"
    and ex: "(\<exists>v \<in> set (e_Responses e). tagless v) \<longrightarrow> (\<exists>d \<in> set ds. tagless d)"
    using responses_tagless_last [OF rs] by blast
  have f: "length (filter tagless ds) \<le> 1"
    using t by (rule filter_only_last)
  show ?thesis using ra a s t ex f unfolding tagless_def by blast
qed


theorem buildResultData_tagless_last_witness:
  "map_sum id (\<lambda>r. map rs_TagValue (rd_Responses (fst r)))
     (buildResultData (sampleExt []) sampleService
        ((sampleEndpoint (sampleAttr Empty) (sampleAttr Empty))
         \<lparr>e_Responses := [sampleResponse [] ''first'', sampleResponse ''view'' ''second'',
                           sampleResponse [] ''third'', sampleResponse ''view'' ''fourth'']\<rparr>)
        sampleState)
   = Inr [''fourth'', ''second'', ''first'']"
proof -
  let ?e = "(sampleEndpoint (sampleAttr Empty) (sampleAttr Empty))
         \<lparr>e_Responses := [sampleResponse [] ''first'', sampleResponse ''view'' ''second'',
                           sampleResponse [] ''third'', sampleResponse ''view'' ''fourth'']\<rparr>"
  let ?r = "buildResultData (sampleExt []) sampleService ?e sampleState"
  have ev: "map_sum id (\<lambda>r. map rs_TagValue (rd_Responses (fst r))) ?r
      = Inr [''fourth'', ''second'', ''first'']"
    by (simp add: sample_defs body_defs payload_defs result_defs)
  then obtain rd sd' where r: "?r = Inr (rd, sd')" by (cases ?r) auto
  from buildResultData_tagless_last [OF r] ev show ?thesis by simp
qed



section \<open>Properties of the transform errors\<close>

lemma GoTypeTransform_error:
  "TransformError x src tgt sv tv = Some msg \<Longrightarrow>
     GoTypeTransform x src tgt sv tv sp tp unmarshal scope = ([], [], Some msg)"
  by (simp add: GoTypeTransform_def)



lemma transformBoth_error:
  assumes "TransformError x src tgt sv ''v'' = Some msg"
  shows "transformBoth x src tgt sv pkg sd = (([], [], Some msg), sd)"
  using assms by (simp add: transformBoth_def GoTypeTransform_error)


lemma buildPayloadData_transform_error_params:
  assumes "Type (e_Body e) = Empty"
      and "IsArray x (Type (me_Payload (e_MethodExpr e))) \<or> IsMap x (Type (me_Payload (e_MethodExpr e)))"
      and "AsObject x (Type (ma_Attribute (e_Params e))) = Some (p0 # ps)"
      and "TransformError x (Type (snd p0)) (Type (me_Payload (e_MethodExpr e)))
             (Goify x (fst p0) False) ''v'' = Some msg"
  shows "buildPayloadData_transform x svc e sd
      = Inr (([], [], []), sd\<lparr>Stdout := Stdout sd @ [msg]\<rparr>)"
  using assms unfolding buildPayloadData_transform_def
  by (simp add: Let_def transformBoth_error)











section \<open>Properties of the path constructors\<close>














end
